theory Spec2Isabelle
  imports Main
begin

section \<open>JavaScript values handled by the HTTP client\<close>

text \<open>
  A string of the program is a \<^typ>\<open>string\<close>, one character per code unit (code units
  below 256). A value decoded from a response body, or handed to \<open>JSON.stringify\<close>, is a
  \<open>json\<close>: \<open>JObj\<close> lists the own properties of a plain object (distinct keys), and the
  result of \<open>response.text()\<close> is a \<open>JStr\<close>. Of a number only its being zero or not is
  ever inspected by the code.
\<close>

datatype json =
    JNull
  | JBool bool
  | JNum int
  | JStr string
  | JArr "json list"
  | JObj "(string \<times> json) list"

text \<open>\<open>data?.message\<close>: \<open>None\<close> is \<open>undefined\<close>. Only a plain object can own a
  \<open>message\<close> property; \<open>null\<close> short-circuits, and strings, numbers, booleans and arrays
  have no such property.\<close>

fun get_message :: "json \<Rightarrow> json option" where
  "get_message (JObj kvs) = map_of kvs ''message''"
| "get_message JNull = None"
| "get_message (JBool b) = None"
| "get_message (JNum n) = None"
| "get_message (JStr s) = None"
| "get_message (JArr xs) = None"

text \<open>Truthiness, as the operator \<open>||\<close> tests it.\<close>

fun truthy :: "json \<Rightarrow> bool" where
  "truthy JNull = False"
| "truthy (JBool b) = b"
| "truthy (JNum n) = (n \<noteq> 0)"
| "truthy (JStr s) = (s \<noteq> [])"
| "truthy (JArr xs) = True"
| "truthy (JObj kvs) = True"

text \<open>\<open>data?.message || "Something went wrong"\<close>\<close>

definition error_message :: "json \<Rightarrow> json" where
  "error_message data =
     (case get_message data of
        None \<Rightarrow> JStr ''Something went wrong''
      | Some m \<Rightarrow> if truthy m then m else JStr ''Something went wrong'')"

text \<open>\<open>String.prototype.includes\<close>: the argument occurs as a contiguous substring.\<close>

fun str_includes :: "string \<Rightarrow> string \<Rightarrow> bool" where
  "str_includes [] sub = (sub = [])"
| "str_includes (c # cs) sub = (take (length sub) (c # cs) = sub \<or> str_includes cs sub)"

text \<open>\<open>String.prototype.trim\<close> strips white space and line terminators from both ends:
  TAB, LF, VT, FF, CR, SPACE and NBSP among the code units below 256.\<close>

definition is_space :: "char \<Rightarrow> bool" where
  "is_space c = (of_char c \<in> {9, 10, 11, 12, 13, 32, 160 :: nat})"

definition trim :: "string \<Rightarrow> string" where
  "trim s = rev (dropWhile is_space (rev (dropWhile is_space s)))"

section \<open>Errors\<close>

text \<open>\<open>ApiError\<close> of \<open>lib/api.ts\<close>: \<open>status\<close> and \<open>details\<close> are optional properties. The
  message is typed \<open>string\<close> in the source but is assigned whatever \<open>data?.message\<close> holds.\<close>

record ApiError =
  message :: json
  status :: "nat option"
  details :: "json option"

text \<open>An error object of the platform (\<open>TypeError\<close>, \<open>SyntaxError\<close>, the \<open>DOMException\<close>
  of an abort), by its \<open>name\<close> and text.\<close>

datatype js_error = JsError (err_name: string) (err_msg: string)

text \<open>What a rejected promise carries: the plain \<open>ApiError\<close> object the client throws, or an
  error object of the platform.\<close>

datatype thrown = Api ApiError | Native js_error

text \<open>\<open>error.name\<close> in the catch block: a plain \<open>ApiError\<close> object has no \<open>name\<close>.\<close>

fun error_name :: "thrown \<Rightarrow> string option" where
  "error_name (Api e) = None"
| "error_name (Native e) = Some (err_name e)"

section \<open>The platform: requests, responses, promises and the abort timer\<close>

text \<open>\<open>HeadersInit\<close>, the type of \<open>options.headers\<close>: a plain object of strings, a
  \<open>Headers\<close> instance, or an array of name/value pairs.\<close>

datatype HeadersInit =
    HRecord "string \<rightharpoonup> string"
  | HInstance "string \<rightharpoonup> string"
  | HPairs "(string \<times> string) list"

text \<open>A property value of the \<open>headers\<close> object built for \<open>fetch\<close>: a string, or (when an
  array of pairs was spread) a two-element array.\<close>

datatype hvalue = HStr string | HPair string string

text \<open>\<open>RequestOptions\<close>, as \<open>request\<close> reads it: the properties of \<open>RequestInit\<close> the model
  follows, and \<open>timeout\<close>. \<open>None\<close> is a property that reads as \<open>undefined\<close>.\<close>

record RequestOptions =
  "method" :: "string option"
  body :: "string option"
  headers :: "HeadersInit option"
  timeout :: "nat option"

text \<open>One call of \<open>fetch\<close>: the URL and the init object (the signal is always the
  controller's own, since \<open>signal\<close> is written after \<open>...options\<close>).\<close>

record fetch_call =
  url :: string
  init_method :: "string option"
  init_body :: "string option"
  init_headers :: "string \<rightharpoonup> hvalue"

text \<open>A promise of the platform: it never settles by itself, or it settles so many
  milliseconds after \<open>request\<close> was called, rejected (\<open>Inl\<close>) or fulfilled (\<open>Inr\<close>).\<close>

datatype 'a promise = Pending | Settled nat "js_error + 'a"

text \<open>A \<open>Response\<close>, by what the client reads of it: \<open>status\<close>,
  \<open>headers.get("content-type")\<close>, and the promises of \<open>json()\<close> and \<open>text()\<close>.\<close>

record Response =
  resp_status :: nat
  content_type :: "string option"
  resp_json :: "json promise"
  resp_text :: "string promise"

text \<open>\<open>response.ok\<close>: the status is in the range 200 to 299.\<close>

definition ok :: "Response \<Rightarrow> bool" where
  "ok r = (200 \<le> resp_status r \<and> resp_status r \<le> 299)"

text \<open>The environment of the client: \<open>BASE_URL\<close>, \<open>JSON.stringify\<close>, and what the network
  answers to a call of \<open>fetch\<close>.\<close>

record platform =
  BASE_URL :: string
  stringify :: "json \<Rightarrow> string"
  fetch :: "fetch_call \<Rightarrow> Response promise"

text \<open>The rejection of a promise whose signal was aborted.\<close>

definition abort_error :: js_error where
  "abort_error = JsError ''AbortError'' ''signal is aborted without reason''"

text \<open>\<open>await\<close> on a promise governed by the controller's signal, with the timer set to
  \<open>t\<close> milliseconds: a promise settled by then gives its outcome; otherwise the timer fires,
  \<open>controller.abort()\<close> runs and the promise rejects with the abort error.\<close>

fun await :: "nat \<Rightarrow> 'a promise \<Rightarrow> js_error + 'a" where
  "await t Pending = Inl abort_error"
| "await t (Settled ms r) = (if ms \<le> t then r else Inl abort_error)"

section \<open>The HTTP client (\<open>lib/api.ts\<close>)\<close>

text \<open>The keys of an array's own properties are its indices in decimal.\<close>

fun index_key :: "nat \<Rightarrow> string" where
  "index_key n =
     (if n < 10 then [char_of (48 + n)]
      else index_key (n div 10) @ [char_of (48 + n mod 10)])"

text \<open>What the object spread \<open>...(options.headers)\<close> copies: the own enumerable properties.
  A plain object has its entries; a \<open>Headers\<close> instance keeps its entries in internal
  state and has none; an array has one property per index, holding the pair.\<close>

fun own_properties :: "HeadersInit \<Rightarrow> (string \<rightharpoonup> hvalue)" where
  "own_properties (HRecord m) = (\<lambda>k. map_option HStr (m k))"
| "own_properties (HInstance m) = Map.empty"
| "own_properties (HPairs ps) =
     map_of (zip (map index_key [0..<length ps]) (map (\<lambda>(k, v). HPair k v) ps))"

text \<open>The \<open>headers\<close> property of the init object (lines 46 to 49):
  \<open>{"Content-Type": "application/json", ...(options.headers || {})}\<close>.\<close>

definition request_headers :: "RequestOptions \<Rightarrow> (string \<rightharpoonup> hvalue)" where
  "request_headers options =
     [''Content-Type'' \<mapsto> HStr ''application/json''] ++
       (case headers options of None \<Rightarrow> Map.empty | Some h \<Rightarrow> own_properties h)"

text \<open>Lines 52 to 59: the content type chooses between \<open>response.json()\<close> and
  \<open>response.text()\<close>; a missing header takes the text branch.\<close>

definition is_json :: "Response \<Rightarrow> bool" where
  "is_json response =
     (case content_type response of
        None \<Rightarrow> False
      | Some contentType \<Rightarrow> str_includes contentType ''application/json'')"

definition decode :: "nat \<Rightarrow> Response \<Rightarrow> js_error + json" where
  "decode t response =
     (if is_json response then await t (resp_json response)
      else map_sum id JStr (await t (resp_text response)))"

text \<open>The \<open>try\<close> block (lines 43 to 70), with the timer set to \<open>t\<close>.\<close>

definition try_block :: "platform \<Rightarrow> nat \<Rightarrow> fetch_call \<Rightarrow> thrown + json" where
  "try_block P t call =
     (case await t (fetch P call) of
        Inl e \<Rightarrow> Inl (Native e)
      | Inr response \<Rightarrow>
          (case decode t response of
             Inl e \<Rightarrow> Inl (Native e)
           | Inr data \<Rightarrow>
               if \<not> ok response
               then Inl (Api \<lparr>message = error_message data,
                              status = Some (resp_status response),
                              details = Some data\<rparr>)
               else Inr data))"

text \<open>The \<open>catch\<close> block (lines 71 to 78).\<close>

definition catch_block :: "thrown \<Rightarrow> thrown" where
  "catch_block error =
     (if error_name error = Some ''AbortError''
      then Api \<lparr>message = JStr ''Request timeout. Please try again.'',
                status = None, details = None\<rparr>
      else error)"

text \<open>\<open>options.timeout ?? 10000\<close>\<close>

definition effective_timeout :: "RequestOptions \<Rightarrow> nat" where
  "effective_timeout options = (case timeout options of None \<Rightarrow> 10000 | Some ms \<Rightarrow> ms)"

text \<open>The delay \<open>setTimeout\<close> waits for: it converts its argument to a 32-bit signed integer
  (modulo 4294967296) and takes a negative result as 0. A delay up to 2147483647 is kept;
  one of 2147483648 or of 3000000000 fires at once.\<close>

definition timer_delay :: "nat \<Rightarrow> nat" where
  "timer_delay ms = (let w = ms mod 4294967296 in if w < 2147483648 then w else 0)"

text \<open>The call of \<open>fetch\<close> that \<open>request\<close> makes (lines 43 to 50).\<close>

definition fetch_args :: "platform \<Rightarrow> string \<Rightarrow> RequestOptions \<Rightarrow> fetch_call" where
  "fetch_args P path options =
     \<lparr>url = BASE_URL P @ path,
      init_method = method options,
      init_body = body options,
      init_headers = request_headers options\<rparr>"

text \<open>\<open>request\<close>: the outcome of the returned promise (\<open>Inl\<close> a rejection), and the log of
  network calls extended by the calls made.\<close>

definition request ::
  "platform \<Rightarrow> string \<Rightarrow> RequestOptions \<Rightarrow> fetch_call list \<Rightarrow> (thrown + json) \<times> fetch_call list" where
  "request P path options log =
     (let call = fetch_args P path options in
      (case try_block P (timer_delay (effective_timeout options)) call of
         Inl error \<Rightarrow> Inl (catch_block error)
       | Inr data \<Rightarrow> Inr data,
       log @ [call]))"

text \<open>
  An options object as a caller of the convenience operations writes it. Each property is
  absent, present with the value \<open>undefined\<close>, or present with a value. (\<open>request\<close> itself
  only reads its options, by \<open>??\<close>, by \<open>||\<close> and by spreading them into the init object of
  \<open>fetch\<close>, and none of these tells an absent property from an \<open>undefined\<close> one; so
  \<open>RequestOptions\<close> above records what reading a property yields, \<open>None\<close> for
  \<open>undefined\<close>.)
\<close>

datatype 'a property = Absent | Undefined | Value 'a

record OptionsObject =
  own_method :: "string property"
  own_body :: "string property"
  own_headers :: "HeadersInit property"
  own_timeout :: "nat property"

text \<open>Reading a property: an absent one reads as \<open>undefined\<close>.\<close>

fun read_prop :: "'a property \<Rightarrow> 'a option" where
  "read_prop Absent = None"
| "read_prop Undefined = None"
| "read_prop (Value v) = Some v"

text \<open>One property of the object spread \<open>{k: d, ...options}\<close>: a property that \<open>options\<close>
  has, whatever its value, replaces the one written before the spread.\<close>

fun spread_prop :: "'a option \<Rightarrow> 'a property \<Rightarrow> 'a option" where
  "spread_prop d Absent = d"
| "spread_prop d Undefined = None"
| "spread_prop d (Value v) = Some v"

text \<open>The object spread \<open>{...defaults, ...options}\<close> of the convenience operations;
  \<open>options\<close> may be missing altogether.\<close>

definition spread :: "RequestOptions \<Rightarrow> OptionsObject option \<Rightarrow> RequestOptions" where
  "spread defaults options =
     (case options of
        None \<Rightarrow> defaults
      | Some opts \<Rightarrow>
          \<lparr>method = spread_prop (method defaults) (own_method opts),
           body = spread_prop (body defaults) (own_body opts),
           headers = spread_prop (headers defaults) (own_headers opts),
           timeout = spread_prop (timeout defaults) (own_timeout opts)\<rparr>)"

definition api_get ::
  "platform \<Rightarrow> string \<Rightarrow> OptionsObject option \<Rightarrow> fetch_call list \<Rightarrow> (thrown + json) \<times> fetch_call list" where
  "api_get P path options =
     request P path
       (spread \<lparr>method = Some ''GET'', body = None, headers = None, timeout = None\<rparr> options)"

text \<open>\<open>JSON.stringify(body)\<close> of an absent body is \<open>undefined\<close>.\<close>

definition api_post ::
  "platform \<Rightarrow> string \<Rightarrow> json option \<Rightarrow> OptionsObject option \<Rightarrow> fetch_call list
     \<Rightarrow> (thrown + json) \<times> fetch_call list" where
  "api_post P path data options =
     request P path
       (spread \<lparr>method = Some ''POST'', body = map_option (stringify P) data,
                headers = None, timeout = None\<rparr> options)"

definition api_put ::
  "platform \<Rightarrow> string \<Rightarrow> json option \<Rightarrow> OptionsObject option \<Rightarrow> fetch_call list
     \<Rightarrow> (thrown + json) \<times> fetch_call list" where
  "api_put P path data options =
     request P path
       (spread \<lparr>method = Some ''PUT'', body = map_option (stringify P) data,
                headers = None, timeout = None\<rparr> options)"

definition api_patch ::
  "platform \<Rightarrow> string \<Rightarrow> json option \<Rightarrow> OptionsObject option \<Rightarrow> fetch_call list
     \<Rightarrow> (thrown + json) \<times> fetch_call list" where
  "api_patch P path data options =
     request P path
       (spread \<lparr>method = Some ''PATCH'', body = map_option (stringify P) data,
                headers = None, timeout = None\<rparr> options)"

definition api_delete ::
  "platform \<Rightarrow> string \<Rightarrow> OptionsObject option \<Rightarrow> fetch_call list \<Rightarrow> (thrown + json) \<times> fetch_call list" where
  "api_delete P path options =
     request P path
       (spread \<lparr>method = Some ''DELETE'', body = None, headers = None, timeout = None\<rparr> options)"

section \<open>The registration service and the form\<close>

text \<open>\<open>FormState\<close> of the modal; \<open>RegistrationPayload\<close> has the same six properties and
  \<open>registrationDate\<close>, so it is the extension of the form's record.\<close>

record FormState =
  name :: string
  email :: string
  phone :: string
  education :: string
  address :: string
  courseId :: string

record RegistrationPayload = FormState +
  registrationDate :: string

text \<open>The payload object as a value, as \<open>JSON.stringify\<close> receives it.\<close>

definition payload_json :: "RegistrationPayload \<Rightarrow> json" where
  "payload_json p =
     JObj [(''name'', JStr (name p)), (''email'', JStr (email p)), (''phone'', JStr (phone p)),
           (''education'', JStr (education p)), (''address'', JStr (address p)),
           (''courseId'', JStr (courseId p)), (''registrationDate'', JStr (registrationDate p))]"

definition createRegistration ::
  "platform \<Rightarrow> RegistrationPayload \<Rightarrow> fetch_call list \<Rightarrow> (thrown + json) \<times> fetch_call list" where
  "createRegistration P payload = api_post P ''/registrations'' (Some (payload_json payload)) None"

section \<open>The page: the catalog, the dashboard and the registration modal\<close>

text \<open>\<open>Course\<close> and \<open>Session\<close>, and the two constant lists of \<open>Dashboard\<close>. (The second
  copy of the component spells the session titles without \<open>Free\<close>; nothing reads them.)\<close>

record Course =
  course_id :: string
  course_title :: string
  color :: string
  price :: nat
  points :: "string list"

record Session =
  session_id :: string
  session_title :: string
  session_courseId :: string
  dateText :: string
  timeText :: string

definition courses :: "Course list" where
  "courses =
     [\<lparr>course_id = ''flutter'', course_title = ''Flutter Development'',
       color = ''from-blue-500 to-cyan-400'', price = 3000,
       points = [''Mobile Apps'', ''Firebase + API Basics'', ''Live Project Practice'',
                 ''Play Store Deployment Basics'']\<rparr>,
      \<lparr>course_id = ''python'', course_title = ''Python Programming'',
       color = ''from-green-500 to-emerald-400'', price = 3000,
       points = [''Basic to Advanced'', ''Projects + Logic Building'',
                 ''Interview Preparation'', ''Real-world Problem Solving'']\<rparr>,
      \<lparr>course_id = ''c-programming'', course_title = ''C Programming'',
       color = ''from-orange-500 to-amber-400'', price = 2000,
       points = [''C Basics'', ''DSA Foundation'', ''Problem Solving Skills'',
                 ''Pointers & Memory Concepts'']\<rparr>]"

definition sessions :: "Session list" where
  "sessions =
     [\<lparr>session_id = ''free-flutter'', session_title = ''Free Flutter Session'',
       session_courseId = ''flutter'', dateText = ''15-02-2026'',
       timeText = ''10 Am to 11 Am''\<rparr>,
      \<lparr>session_id = ''free-python'', session_title = ''Free Python Session'',
       session_courseId = ''python'', dateText = ''15-02-2026'',
       timeText = ''10 Am to 11 Am''\<rparr>,
      \<lparr>session_id = ''free-c'', session_title = ''Free C Programming Session'',
       session_courseId = ''c-programming'', dateText = ''15-02-2026'',
       timeText = ''10 Am to 11 Am''\<rparr>]"

text \<open>
  The state of the page. \<open>form\<close> and \<open>submitting\<close> are the state of \<open>RegistrationModal\<close>;
  \<open>modalOpen\<close> and \<open>selectedCourseId\<close> are the state of \<open>Dashboard\<close>, handed down as \<open>open\<close>
  and \<open>defaultCourseId\<close>. The event handlers are closures of a render: they see the
  constants \<open>form\<close> and \<open>submitting\<close> of the render that created them, here
  \<open>shown_form\<close> and \<open>shown_submitting\<close>, and they exist only when that render showed the
  form (\<open>shown_open\<close>). \<open>effect_deps\<close> is the dependency array \<open>[open, defaultCourseId]\<close> of
  the last render. \<open>calls\<close> logs the network calls, \<open>in_flight\<close> holds the outcomes that
  the pending \<open>await\<close>s will receive, \<open>alerts\<close> the alerts shown.
\<close>

record page =
  form :: FormState
  submitting :: bool
  modalOpen :: bool
  selectedCourseId :: string
  shown_form :: FormState
  shown_submitting :: bool
  shown_open :: bool
  effect_deps :: "(bool \<times> string) option"
  calls :: "fetch_call list"
  in_flight :: "(thrown + json) list"
  alerts :: "string list"

text \<open>The page as \<open>useState\<close> initialises it: empty fields, the first course selected, the
  modal closed.\<close>

definition initial :: page where
  "initial =
     \<lparr>form = \<lparr>name = '''', email = '''', phone = '''', education = '''', address = '''',
               courseId = course_id (courses ! 0)\<rparr>,
      submitting = False,
      modalOpen = False,
      selectedCourseId = course_id (courses ! 0),
      shown_form = \<lparr>name = '''', email = '''', phone = '''', education = '''', address = '''',
                     courseId = course_id (courses ! 0)\<rparr>,
      shown_submitting = False,
      shown_open = False,
      effect_deps = None,
      calls = [],
      in_flight = [],
      alerts = []\<rparr>"

text \<open>
  A render: the handlers created by it see the current state. After it the effect
  \<open>if (open) setForm((prev) => ({...prev, courseId: defaultCourseId}))\<close> runs when
  \<open>[open, defaultCourseId]\<close> differs from that of the render before (or there was none); the
  form it sets is seen by the next render.
\<close>

definition render :: "page \<Rightarrow> page" where
  "render s =
     (let deps = (modalOpen s, selectedCourseId s);
          s' = s\<lparr>shown_form := form s, shown_submitting := submitting s,
                 shown_open := modalOpen s, effect_deps := Some deps\<rparr>
      in if effect_deps s \<noteq> Some deps \<and> modalOpen s
         then s'\<lparr>form := (form s)\<lparr>courseId := selectedCourseId s\<rparr>\<rparr>
         else s')"

text \<open>\<open>openCourseForm\<close>, \<open>openSessionForm\<close> and \<open>onClose\<close> of \<open>Dashboard\<close> (the mode and the
  headings they also set are display only).\<close>

definition openCourseForm :: "Course \<Rightarrow> page \<Rightarrow> page" where
  "openCourseForm course s = s\<lparr>selectedCourseId := course_id course, modalOpen := True\<rparr>"

definition openSessionForm :: "Session \<Rightarrow> page \<Rightarrow> page" where
  "openSessionForm session s =
     s\<lparr>selectedCourseId := session_courseId session, modalOpen := True\<rparr>"

definition onClose :: "page \<Rightarrow> page" where
  "onClose s = s\<lparr>modalOpen := False\<rparr>"

text \<open>\<open>keyof FormState\<close>, and \<open>onChange(key)\<close>:
  \<open>setForm((p) => ({...p, [key]: e.target.value}))\<close>.\<close>

datatype form_key = KName | KEmail | KPhone | KEducation | KAddress | KCourseId

fun set_key :: "form_key \<Rightarrow> string \<Rightarrow> FormState \<Rightarrow> FormState" where
  "set_key KName v p = p\<lparr>name := v\<rparr>"
| "set_key KEmail v p = p\<lparr>email := v\<rparr>"
| "set_key KPhone v p = p\<lparr>phone := v\<rparr>"
| "set_key KEducation v p = p\<lparr>education := v\<rparr>"
| "set_key KAddress v p = p\<lparr>address := v\<rparr>"
| "set_key KCourseId v p = p\<lparr>courseId := v\<rparr>"

definition onChange :: "form_key \<Rightarrow> string \<Rightarrow> page \<Rightarrow> page" where
  "onChange key v s = s\<lparr>form := set_key key v (form s)\<rparr>"

text \<open>The object \<open>registrationData\<close> built at lines 79 to 87; \<open>now\<close> is
  \<open>new Date().toISOString()\<close>.\<close>

definition registrationData :: "string \<Rightarrow> FormState \<Rightarrow> RegistrationPayload" where
  "registrationData now f =
     \<lparr>name = trim (name f),
      email = trim (email f),
      phone = trim (phone f),
      education = trim (education f),
      address = trim (address f),
      courseId = courseId f,
      registrationDate = now\<rparr>"

text \<open>\<open>handleSubmit\<close> up to its \<open>await\<close>. The guard and the payload read the constants
  \<open>submitting\<close> and \<open>form\<close> of the handler's render; \<open>setSubmitting(true)\<close> changes the
  state, which the next render shows.\<close>

definition handleSubmit :: "platform \<Rightarrow> string \<Rightarrow> page \<Rightarrow> page" where
  "handleSubmit P now s =
     (if shown_submitting s then s
      else
        let saved = createRegistration P (registrationData now (shown_form s)) (calls s)
        in s\<lparr>submitting := True, calls := snd saved,
             in_flight := in_flight s @ [fst saved]\<rparr>)"

text \<open>\<open>handleSubmit\<close> from the \<open>await\<close> on, run with the outcome of the promise: the rest
  of the \<open>try\<close> block, or the \<open>catch\<close> block, and \<open>finally\<close>.\<close>

definition handleSubmit_settled :: "thrown + json \<Rightarrow> page \<Rightarrow> page" where
  "handleSubmit_settled outcome s =
     (case outcome of
        Inr saved \<Rightarrow>
          s\<lparr>alerts := alerts s @ [''Registration saved successfully!''],
            modalOpen := False, submitting := False\<rparr>
      | Inl err \<Rightarrow>
          s\<lparr>alerts := alerts s @ [''Failed to submit. Check console.''],
            submitting := False\<rparr>)"

text \<open>
  The events of the page. A course card or a session card is clicked (by its index in the
  list); an input or the select changes, to a typed string or to the value of one of the
  options, which are the course ids; the modal is closed; the form is submitted, at the
  time \<open>now\<close>; one of the pending calls settles; React renders. The events of the form
  reach a handler only when the form is shown.
\<close>

datatype event =
    OpenCourse nat
  | OpenSession nat
  | Change form_key string
  | Close
  | Submit string
  | Settle nat
  | Render

definition can_enter :: "form_key \<Rightarrow> string \<Rightarrow> bool" where
  "can_enter key v = (if key = KCourseId then v \<in> set (map course_id courses) else True)"

fun step :: "platform \<Rightarrow> page \<Rightarrow> event \<Rightarrow> page" where
  "step P s (OpenCourse i) = (if i < length courses then openCourseForm (courses ! i) s else s)"
| "step P s (OpenSession i) =
     (if i < length sessions then openSessionForm (sessions ! i) s else s)"
| "step P s (Change key v) = (if shown_open s \<and> can_enter key v then onChange key v s else s)"
| "step P s Close = (if shown_open s then onClose s else s)"
| "step P s (Submit now) = (if shown_open s then handleSubmit P now s else s)"
| "step P s (Settle i) =
     (if i < length (in_flight s)
      then handleSubmit_settled (in_flight s ! i)
             (s\<lparr>in_flight := take i (in_flight s) @ drop (Suc i) (in_flight s)\<rparr>)
      else s)"
| "step P s Render = render s"

definition run :: "platform \<Rightarrow> page \<Rightarrow> event list \<Rightarrow> page" where
  "run P s evs = foldl (step P) s evs"

section \<open>Notions used to state the properties\<close>

text \<open>The promise of the body that \<open>request\<close> reads settles by \<open>t\<close>.\<close>

definition body_settled_by :: "nat \<Rightarrow> Response \<Rightarrow> bool" where
  "body_settled_by t response =
     (if is_json response
      then (case resp_json response of Pending \<Rightarrow> False | Settled ms r \<Rightarrow> ms \<le> t)
      else (case resp_text response of Pending \<Rightarrow> False | Settled ms r \<Rightarrow> ms \<le> t))"

text \<open>The exchange has completed \<open>t\<close> milliseconds after the call: \<open>fetch\<close> has rejected, or
  it has delivered a response whose body has been read (or has failed to be read).\<close>

definition completed_by :: "nat \<Rightarrow> Response promise \<Rightarrow> bool" where
  "completed_by t p =
     (case p of
        Pending \<Rightarrow> False
      | Settled ms r \<Rightarrow>
          ms \<le> t \<and> (case r of Inl e \<Rightarrow> True | Inr response \<Rightarrow> body_settled_by t response))"

text \<open>The body of the response is read, \<open>ms\<close> milliseconds after the call, as the value
  \<open>data\<close>: by \<open>json()\<close> when the content type names JSON, as a string by \<open>text()\<close>
  otherwise.\<close>

definition body_read :: "Response \<Rightarrow> nat \<Rightarrow> json \<Rightarrow> bool" where
  "body_read response ms data =
     (if is_json response then resp_json response = Settled ms (Inr data)
      else (case data of
              JStr s \<Rightarrow> resp_text response = Settled ms (Inr s)
            | other \<Rightarrow> False))"

text \<open>A string with no white space at either end.\<close>

definition trimmed :: "string \<Rightarrow> bool" where
  "trimmed s = (s = [] \<or> (\<not> is_space (hd s) \<and> \<not> is_space (last s)))"

text \<open>The form is idle: nothing is being submitted.\<close>

definition idle :: "page \<Rightarrow> bool" where
  "idle s = (\<not> submitting s \<and> in_flight s = [])"

text \<open>The handlers see the current \<open>submitting\<close> flag, and the flag is set exactly while
  one call is awaited.\<close>

definition in_step :: "page \<Rightarrow> bool" where
  "in_step s =
     (shown_submitting s = submitting s \<and>
      (if submitting s then length (in_flight s) = 1 else in_flight s = []))"

text \<open>Events that are submit triggers or renders; and the settling of a call.\<close>

fun submit_or_render :: "event \<Rightarrow> bool" where
  "submit_or_render (Submit now) = True"
| "submit_or_render Render = True"
| "submit_or_render (OpenCourse i) = False"
| "submit_or_render (OpenSession i) = False"
| "submit_or_render (Change key v) = False"
| "submit_or_render Close = False"
| "submit_or_render (Settle i) = False"

fun is_settle :: "event \<Rightarrow> bool" where
  "is_settle (Settle i) = True"
| "is_settle (Submit now) = False"
| "is_settle Render = False"
| "is_settle (OpenCourse i) = False"
| "is_settle (OpenSession i) = False"
| "is_settle (Change key v) = False"
| "is_settle Close = False"

text \<open>A run in which React renders after every event.\<close>

definition rendered :: "event list \<Rightarrow> event list" where
  "rendered evs = concat (map (\<lambda>e. [e, Render]) evs)"

text \<open>Every course id the page holds is one of the catalog.\<close>

definition catalog_ids :: "page \<Rightarrow> bool" where
  "catalog_ids s =
     (courseId (form s) \<in> set (map course_id courses) \<and>
      courseId (shown_form s) \<in> set (map course_id courses) \<and>
      selectedCourseId s \<in> set (map course_id courses))"

section \<open>Test doubles\<close>

text \<open>A server that answers every call with the same promise, and responses with a JSON
  body and with a plain-text body, delivered after 120 ms and read after 150 ms.\<close>

definition mock_platform :: "Response promise \<Rightarrow> platform" where
  "mock_platform answer =
     \<lparr>BASE_URL = ''http://localhost:8080/api'',
      stringify = (\<lambda>j. ''(serialized)''),
      fetch = (\<lambda>call. answer)\<rparr>"

definition mock_json_response :: "nat \<Rightarrow> json \<Rightarrow> Response" where
  "mock_json_response st j =
     \<lparr>resp_status = st,
      content_type = Some ''application/json; charset=utf-8'',
      resp_json = Settled 150 (Inr j),
      resp_text = Settled 150 (Inr ''(raw body)'')\<rparr>"

definition mock_text_response :: "nat \<Rightarrow> string \<Rightarrow> Response" where
  "mock_text_response st s =
     \<lparr>resp_status = st,
      content_type = Some ''text/plain'',
      resp_json = Settled 150 (Inl (JsError ''SyntaxError'' ''Unexpected token'')),
      resp_text = Settled 150 (Inr s)\<rparr>"

text \<open>A 502 response that announces JSON and carries an empty body: \<open>json()\<close> rejects.\<close>

definition mock_broken_response :: Response where
  "mock_broken_response =
     \<lparr>resp_status = 502,
      content_type = Some ''application/json'',
      resp_json = Settled 150 (Inl (JsError ''SyntaxError'' ''Unexpected end of JSON input'')),
      resp_text = Settled 150 (Inr '''')\<rparr>"

definition no_options :: RequestOptions where
  "no_options = \<lparr>method = None, body = None, headers = None, timeout = None\<rparr>"

definition sample_form :: FormState where
  "sample_form =
     \<lparr>name = ''  Asha Patil '', email = ''asha@example.com  '', phone = '' 9876543210'',
      education = ''BCS'', address = ''Pune  '', courseId = ''flutter''\<rparr>"

definition sample_payload :: RegistrationPayload where
  "sample_payload = registrationData ''2026-02-01T10:00:00.000Z'' sample_form"

text \<open>The object \<open>{...payload, id: n}\<close> a server answers with.\<close>

definition with_id :: "RegistrationPayload \<Rightarrow> int \<Rightarrow> json" where
  "with_id payload n =
     (case payload_json payload of
        JObj kvs \<Rightarrow> JObj (kvs @ [(''id'', JNum n)])
      | other \<Rightarrow> other)"

text \<open>An options object that carries only a timeout, and one whose \<open>method\<close> is present
  with the value \<open>undefined\<close>.\<close>

definition timeout_only :: "nat \<Rightarrow> OptionsObject" where
  "timeout_only ms =
     \<lparr>own_method = Absent, own_body = Absent, own_headers = Absent, own_timeout = Value ms\<rparr>"

definition method_undefined :: OptionsObject where
  "method_undefined =
     \<lparr>own_method = Undefined, own_body = Absent, own_headers = Absent, own_timeout = Absent\<rparr>"

text \<open>A visitor opens the form from the second session card and fills it in.\<close>

definition sample_visit :: "event list" where
  "sample_visit =
     rendered
       [OpenSession 1,
        Change KName ''  Asha Patil '',
        Change KEmail ''asha@example.com  '',
        Change KPhone '' 9876543210'',
        Change KEducation ''BCS'',
        Change KAddress ''Pune  '']"

section \<open>Basic facts about \<open>request\<close>\<close>

lemma request_log: "snd (request P path options log) = log @ [fetch_args P path options]"
  by (simp add: request_def Let_def)

lemma request_outcome:
  "fst (request P path options log) =
     (case try_block P (timer_delay (effective_timeout options)) (fetch_args P path options) of
        Inl error \<Rightarrow> Inl (catch_block error)
      | Inr data \<Rightarrow> Inr data)"
  by (simp add: request_def Let_def)

lemma timer_delay_le: "timer_delay ms \<le> ms"
proof -
  have "ms mod 4294967296 \<le> ms" by (rule mod_less_eq_dividend)
  then show ?thesis by (simp add: timer_delay_def Let_def)
qed

lemma timer_delay_small: "ms \<le> 2147483647 \<Longrightarrow> timer_delay ms = ms"
  by (simp add: timer_delay_def Let_def)

text \<open>A timeout beyond the range of \<open>setTimeout\<close> fires at once: with
  \<open>timeout: 3000000000\<close> a response that arrives after 120 ms is already too late.\<close>

lemma timer_overflow:
  "timer_delay 2147483647 = 2147483647 \<and> timer_delay 2147483648 = 0 \<and>
   timer_delay 3000000000 = 0 \<and>
   fst (request (mock_platform (Settled 120 (Inr (mock_text_response 500 ''Server Error''))))
          ''/registrations''
          \<lparr>method = None, body = None, headers = None, timeout = Some 3000000000\<rparr> []) =
     Inl (Api \<lparr>message = JStr ''Request timeout. Please try again.'',
               status = None, details = None\<rparr>)"
  by (simp add: timer_delay_def request_outcome effective_timeout_def try_block_def
        mock_platform_def catch_block_def abort_error_def)

lemma catch_abort:
  "catch_block (Native abort_error) =
     Api \<lparr>message = JStr ''Request timeout. Please try again.'', status = None, details = None\<rparr>"
  by (simp add: catch_block_def abort_error_def)

lemma catch_api: "catch_block (Api e) = Api e"
  by (simp add: catch_block_def)

lemma catch_native: "err_name e \<noteq> ''AbortError'' \<Longrightarrow> catch_block (Native e) = Native e"
  by (simp add: catch_block_def)

lemma catch_block_cases:
  "catch_block err = Api a \<Longrightarrow>
     err = Api a \<or>
     a = \<lparr>message = JStr ''Request timeout. Please try again.'', status = None, details = None\<rparr>"
  by (cases err) (auto simp: catch_block_def split: if_splits)

lemma await_late:
  "\<not> (case p of Pending \<Rightarrow> False | Settled ms r \<Rightarrow> ms \<le> t) \<Longrightarrow> await t p = Inl abort_error"
  by (cases p) auto

lemma decode_late: "\<not> body_settled_by t r \<Longrightarrow> decode t r = Inl abort_error"
  by (auto simp: body_settled_by_def decode_def await_late split: if_splits)

lemma try_block_late:
  "\<not> completed_by t (fetch P call) \<Longrightarrow> try_block P t call = Inl (Native abort_error)"
  by (cases "fetch P call")
     (auto simp: completed_by_def try_block_def decode_late split: sum.splits)

lemma body_settled_by_mono: "body_settled_by t' r \<Longrightarrow> t' \<le> t \<Longrightarrow> body_settled_by t r"
  by (auto simp: body_settled_by_def split: if_splits promise.splits)

lemma completed_by_mono: "completed_by t' p \<Longrightarrow> t' \<le> t \<Longrightarrow> completed_by t p"
  by (auto simp: completed_by_def body_settled_by_mono split: promise.splits sum.splits)

lemma try_block_response:
  assumes "fetch P call = Settled ms (Inr response)" and "ms \<le> t"
  shows "try_block P t call =
     (case decode t response of
        Inl e \<Rightarrow> Inl (Native e)
      | Inr data \<Rightarrow>
          if ok response then Inr data
          else Inl (Api \<lparr>message = error_message data, status = Some (resp_status response),
                         details = Some data\<rparr>))"
  using assms by (simp add: try_block_def split: sum.splits)

lemma decode_text:
  "\<not> is_json response \<Longrightarrow> resp_text response = Settled ms (Inr s) \<Longrightarrow> ms \<le> t \<Longrightarrow>
     decode t response = Inr (JStr s)"
  by (simp add: decode_def)

lemma decode_json:
  "is_json response \<Longrightarrow> resp_json response = Settled ms (Inr v) \<Longrightarrow> ms \<le> t \<Longrightarrow>
     decode t response = Inr v"
  by (simp add: decode_def)

lemma decode_body_read: "body_read response ms data \<Longrightarrow> ms \<le> t \<Longrightarrow> decode t response = Inr data"
  by (cases "is_json response") (auto simp: body_read_def decode_def split: json.splits)

text \<open>What \<open>request\<close> does with a response that arrives, and whose body is decoded, before
  the timer fires, the delay being one that \<open>setTimeout\<close> keeps.\<close>

lemma request_http_error:
  assumes "fetch P (fetch_args P path options) = Settled ms (Inr response)"
    and "effective_timeout options \<le> 2147483647"
    and "ms \<le> effective_timeout options"
    and "decode (effective_timeout options) response = Inr data"
    and "\<not> ok response"
  shows "fst (request P path options log) =
     Inl (Api \<lparr>message = error_message data, status = Some (resp_status response),
               details = Some data\<rparr>)"
  using assms by (simp add: request_outcome timer_delay_small try_block_response catch_api)

lemma request_success:
  assumes "fetch P (fetch_args P path options) = Settled ms (Inr response)"
    and "effective_timeout options \<le> 2147483647"
    and "ms \<le> effective_timeout options"
    and "decode (effective_timeout options) response = Inr data"
    and "ok response"
  shows "fst (request P path options log) = Inr data"
  using assms by (simp add: request_outcome timer_delay_small try_block_response)

lemma request_native_error:
  assumes "try_block P (timer_delay (effective_timeout options)) (fetch_args P path options) =
      Inl (Native e)"
    and "err_name e \<noteq> ''AbortError''"
  shows "fst (request P path options log) = Inl (Native e)"
  using assms by (simp add: request_outcome catch_native)

lemma try_block_cases:
  "try_block P t call = Inl (Api a) \<Longrightarrow>
     \<exists>ms response data. fetch P call = Settled ms (Inr response) \<and> ms \<le> t \<and>
        decode t response = Inr data \<and> \<not> ok response \<and>
        a = \<lparr>message = error_message data, status = Some (resp_status response),
             details = Some data\<rparr>"
  by (cases "fetch P call")
     (auto simp: try_block_def abort_error_def split: sum.splits if_splits)

text \<open>\<open>str_includes\<close> is the substring test.\<close>

lemma str_includes_iff: "str_includes s sub \<longleftrightarrow> (\<exists>pre post. s = pre @ sub @ post)"
proof (induction s)
  case Nil
  then show ?case by auto
next
  case (Cons c cs)
  show ?case
  proof
    assume "str_includes (c # cs) sub"
    then consider "take (length sub) (c # cs) = sub" | "str_includes cs sub" by auto
    then show "\<exists>pre post. c # cs = pre @ sub @ post"
    proof cases
      case 1
      then have "c # cs = [] @ sub @ drop (length sub) (c # cs)"
        by (metis append_Nil append_take_drop_id)
      then show ?thesis by blast
    next
      case 2
      with Cons.IH obtain pre post where "cs = pre @ sub @ post" by auto
      then have "c # cs = (c # pre) @ sub @ post" by simp
      then show ?thesis by blast
    qed
  next
    assume "\<exists>pre post. c # cs = pre @ sub @ post"
    then obtain pre post where e: "c # cs = pre @ sub @ post" by auto
    show "str_includes (c # cs) sub"
    proof (cases pre)
      case Nil
      with e have "take (length sub) (c # cs) = sub" by simp
      then show ?thesis by simp
    next
      case (Cons p ps)
      with e have "cs = ps @ sub @ post" by simp
      with Cons.IH have "str_includes cs sub" by blast
      then show ?thesis by simp
    qed
  qed
qed

lemma request_merges_record_headers:
  "init_headers (last (snd (request P path
      \<lparr>method = m, body = b, headers = Some (HRecord h), timeout = t\<rparr> log))) k =
     (case h k of
        Some v \<Rightarrow> Some (HStr v)
      | None \<Rightarrow> if k = ''Content-Type'' then Some (HStr ''application/json'') else None)"
  by (simp add: request_log fetch_args_def request_headers_def map_add_def split: option.splits)

section \<open>Timeout\<close>

text \<open>
  Claim C3. Let the timer be set to \<open>options.timeout\<close>, or to 10000 ms when that property is
  absent. If the exchange has not completed by then (the response has not arrived, or its
  body has not been read), the pending promise is rejected by the abort, and \<open>request\<close>
  rejects with the object whose only property is the message
  \<open>Request timeout. Please try again.\<close>: it has no status and no details.
\<close>

theorem request_timeout:
  assumes "t = (case timeout options of None \<Rightarrow> 10000 | Some ms \<Rightarrow> ms)"
    and "\<not> completed_by t (fetch P (fetch_args P path options))"
  shows "try_block P t (fetch_args P path options) = Inl (Native abort_error) \<and>
         fst (request P path options log) =
           Inl (Api \<lparr>message = JStr ''Request timeout. Please try again.'',
                     status = None, details = None\<rparr>)"
proof -
  from assms(2) have late: "\<not> completed_by (timer_delay t) (fetch P (fetch_args P path options))"
    using completed_by_mono [OF _ timer_delay_le] by blast
  have "effective_timeout options = t"
    using assms(1) by (simp add: effective_timeout_def)
  then have "fst (request P path options log) =
      Inl (catch_block (Native abort_error))"
    using late by (simp add: request_outcome try_block_late)
  then show ?thesis
    using assms(2) by (simp add: try_block_late catch_abort)
qed

text \<open>A response that arrives after 12 seconds, under the default timeout.\<close>

theorem request_timeout_witness:
  "\<not> completed_by 10000
       (fetch (mock_platform (Settled 12000 (Inr (mock_json_response 201 JNull))))
          (fetch_args (mock_platform (Settled 12000 (Inr (mock_json_response 201 JNull))))
             ''/registrations'' no_options)) \<and>
   fst (request (mock_platform (Settled 12000 (Inr (mock_json_response 201 JNull))))
          ''/registrations'' no_options []) =
     Inl (Api \<lparr>message = JStr ''Request timeout. Please try again.'',
               status = None, details = None\<rparr>)"
  using request_timeout [of 10000 no_options
      "mock_platform (Settled 12000 (Inr (mock_json_response 201 JNull)))" "''/registrations''" "[]"]
  by (simp add: no_options_def mock_platform_def completed_by_def)

section \<open>Responses outside the success range\<close>

text \<open>
  Claim C2, as amended. Let the timer be set to \<open>options.timeout\<close>, or to 10000 ms when
  that property is absent, a delay that \<open>setTimeout\<close> keeps (at most 2147483647). For every
  response whose status is outside 200..299, delivered and with its body read before the
  timer fires, \<open>request\<close> rejects with an \<open>ApiError\<close> whose status is the response's status
  and whose details is the decoded body. Its message is the \<open>message\<close> property of the
  decoded body when the body has one and it is truthy (not the empty string, zero,
  \<open>false\<close> or \<open>null\<close>); otherwise it is \<open>Something went wrong\<close>.
\<close>

theorem request_rejects_non_2xx:
  assumes "fetch P (fetch_args P path options) = Settled ms (Inr response)"
    and "t = (case timeout options of None \<Rightarrow> 10000 | Some limit \<Rightarrow> limit)"
    and "t \<le> 2147483647"
    and "ms \<le> t"
    and "body_read response ms' data"
    and "ms' \<le> t"
    and "\<not> (200 \<le> resp_status response \<and> resp_status response \<le> 299)"
  shows "\<exists>e. fst (request P path options log) = Inl (Api e) \<and>
           status e = Some (resp_status response) \<and>
           details e = Some data \<and>
           (\<forall>m. get_message data = Some m \<and> truthy m \<longrightarrow> message e = m) \<and>
           (\<forall>m. get_message data = Some m \<and> \<not> truthy m \<longrightarrow> message e = JStr ''Something went wrong'') \<and>
           (get_message data = None \<longrightarrow> message e = JStr ''Something went wrong'')"
proof -
  have t: "effective_timeout options = t"
    using assms(2) by (simp add: effective_timeout_def)
  have d: "decode (effective_timeout options) response = Inr data"
    using assms(5,6) t by (simp add: decode_body_read)
  from assms(7) have "\<not> ok response" by (simp add: ok_def)
  with assms(1,3,4) t d have "fst (request P path options log) =
     Inl (Api \<lparr>message = error_message data, status = Some (resp_status response),
               details = Some data\<rparr>)"
    by (simp add: request_http_error)
  then show ?thesis by (auto simp: error_message_def)
qed

text \<open>A 400 response with the JSON body \<open>{message: "Email already registered"}\<close>, and a 500
  response with the plain text \<open>Server Error\<close>.\<close>

theorem request_rejects_non_2xx_witness:
  "fst (request (mock_platform (Settled 120 (Inr (mock_json_response 400
          (JObj [(''message'', JStr ''Email already registered'')])))))
        ''/registrations'' no_options []) =
     Inl (Api \<lparr>message = JStr ''Email already registered'', status = Some 400,
               details = Some (JObj [(''message'', JStr ''Email already registered'')])\<rparr>) \<and>
   fst (request (mock_platform (Settled 120 (Inr (mock_text_response 500 ''Server Error''))))
        ''/registrations'' no_options []) =
     Inl (Api \<lparr>message = JStr ''Something went wrong'', status = Some 500,
               details = Some (JStr ''Server Error'')\<rparr>)"
proof -
  have "fst (request (mock_platform (Settled 120 (Inr (mock_json_response 400
          (JObj [(''message'', JStr ''Email already registered'')])))))
        ''/registrations'' no_options []) =
     Inl (Api \<lparr>message = JStr ''Email already registered'', status = Some 400,
               details = Some (JObj [(''message'', JStr ''Email already registered'')])\<rparr>)"
    using request_rejects_non_2xx [of
        "mock_platform (Settled 120 (Inr (mock_json_response 400
            (JObj [(''message'', JStr ''Email already registered'')]))))"
        "''/registrations''" no_options 120
        "mock_json_response 400 (JObj [(''message'', JStr ''Email already registered'')])"
        10000 150 "JObj [(''message'', JStr ''Email already registered'')]" "[]"]
    by (auto simp add: mock_platform_def mock_json_response_def no_options_def
          body_read_def is_json_def)
  moreover have "fst (request (mock_platform (Settled 120 (Inr (mock_text_response 500 ''Server Error''))))
        ''/registrations'' no_options []) =
     Inl (Api \<lparr>message = JStr ''Something went wrong'', status = Some 500,
               details = Some (JStr ''Server Error'')\<rparr>)"
    using request_rejects_non_2xx [of
        "mock_platform (Settled 120 (Inr (mock_text_response 500 ''Server Error'')))"
        "''/registrations''" no_options 120
        "mock_text_response 500 ''Server Error''" 10000 150 "JStr ''Server Error''" "[]"]
    by (auto simp add: mock_platform_def mock_text_response_def no_options_def
          body_read_def is_json_def)
  ultimately show ?thesis by simp
qed

text \<open>
  The claim as first stated takes the \<open>message\<close> property whenever it is present. A 400
  response with the body \<open>{message: ""}\<close> has the property, and the rejection carries the
  generic message, not the empty string.
\<close>

theorem message_field_empty_counterexample:
  "get_message (JObj [(''message'', JStr '''')]) = Some (JStr '''') \<and>
   fst (request (mock_platform (Settled 120 (Inr (mock_json_response 400
          (JObj [(''message'', JStr '''')])))))
        ''/registrations'' no_options []) =
     Inl (Api \<lparr>message = JStr ''Something went wrong'', status = Some 400,
               details = Some (JObj [(''message'', JStr '''')])\<rparr>) \<and>
   fst (request (mock_platform (Settled 120 (Inr (mock_json_response 400
          (JObj [(''message'', JStr '''')])))))
        ''/registrations'' no_options []) \<noteq>
     Inl (Api \<lparr>message = JStr '''', status = Some 400,
               details = Some (JObj [(''message'', JStr '''')])\<rparr>)"
  by (simp add: request_outcome try_block_def catch_api mock_platform_def mock_json_response_def
        no_options_def effective_timeout_def timer_delay_def decode_def is_json_def ok_def
        error_message_def)

text \<open>
  Claim C10. Let the timer be set to \<open>options.timeout\<close>, or to 10000 ms when that property
  is absent, a delay that \<open>setTimeout\<close> keeps (at most 2147483647). For every response
  outside the success range whose content type does not contain \<open>application/json\<close>,
  delivered and with its text read before the timer fires, the decoded body is a string,
  a string has no \<open>message\<close> property, and \<open>request\<close> rejects with the message
  \<open>Something went wrong\<close>; the text is the \<open>details\<close> only.
\<close>

theorem non_json_error_message:
  assumes "fetch P (fetch_args P path options) = Settled ms (Inr response)"
    and "t = (case timeout options of None \<Rightarrow> 10000 | Some limit \<Rightarrow> limit)"
    and "t \<le> 2147483647"
    and "ms \<le> t"
    and "\<not> is_json response"
    and "resp_text response = Settled ms' (Inr s)"
    and "ms' \<le> t"
    and "\<not> ok response"
  shows "get_message (JStr s) = None \<and>
         fst (request P path options log) =
           Inl (Api \<lparr>message = JStr ''Something went wrong'',
                     status = Some (resp_status response),
                     details = Some (JStr s)\<rparr>)"
proof -
  have t: "effective_timeout options = t"
    using assms(2) by (simp add: effective_timeout_def)
  have "decode t response = Inr (JStr s)"
    using assms(5-7) by (rule decode_text)
  with assms(1,3,4,8) t have "fst (request P path options log) =
      Inl (Api \<lparr>message = error_message (JStr s), status = Some (resp_status response),
                details = Some (JStr s)\<rparr>)"
    by (simp add: request_http_error)
  then show ?thesis by (simp add: error_message_def)
qed

text \<open>A 500 response with the plain text \<open>Server Error\<close>.\<close>

theorem non_json_error_message_witness:
  "\<not> is_json (mock_text_response 500 ''Server Error'') \<and>
   \<not> ok (mock_text_response 500 ''Server Error'') \<and>
   fst (request (mock_platform (Settled 120 (Inr (mock_text_response 500 ''Server Error''))))
          ''/registrations'' no_options []) =
     Inl (Api \<lparr>message = JStr ''Something went wrong'', status = Some 500,
               details = Some (JStr ''Server Error'')\<rparr>)"
  using non_json_error_message [of
      "mock_platform (Settled 120 (Inr (mock_text_response 500 ''Server Error'')))"
      "''/registrations''" no_options 120 "mock_text_response 500 ''Server Error''"
      10000 150 "''Server Error''" "[]"]
  by (simp add: mock_platform_def mock_text_response_def no_options_def is_json_def ok_def)

section \<open>Decoding the body\<close>

text \<open>
  Claim C6. Let the timer be set to \<open>options.timeout\<close>, or to 10000 ms when that property
  is absent, a delay that \<open>setTimeout\<close> keeps (at most 2147483647). For every response
  delivered before the timer fires: when its content type contains \<open>application/json\<close>,
  the decoded value is what \<open>response.json()\<close> yields; otherwise it is the string that
  \<open>response.text()\<close> yields. With a status in 200..299 the promise resolves with this
  decoded value (and otherwise the value is the \<open>details\<close> of the rejection).
\<close>

theorem request_decodes_by_content_type:
  assumes "fetch P (fetch_args P path options) = Settled ms (Inr response)"
    and "t = (case timeout options of None \<Rightarrow> 10000 | Some limit \<Rightarrow> limit)"
    and "t \<le> 2147483647"
    and "ms \<le> t"
  shows "(\<forall>ms' v. is_json response \<and> resp_json response = Settled ms' (Inr v) \<and> ms' \<le> t \<longrightarrow>
            decode t response = Inr v \<and>
            (if ok response then fst (request P path options log) = Inr v
             else \<exists>e. fst (request P path options log) = Inl (Api e) \<and> details e = Some v)) \<and>
         (\<forall>ms' s. \<not> is_json response \<and> resp_text response = Settled ms' (Inr s) \<and> ms' \<le> t \<longrightarrow>
            decode t response = Inr (JStr s) \<and>
            (if ok response then fst (request P path options log) = Inr (JStr s)
             else \<exists>e. fst (request P path options log) = Inl (Api e) \<and> details e = Some (JStr s)))"
proof -
  have t: "effective_timeout options = t"
    using assms(2) by (simp add: effective_timeout_def)
  show ?thesis
    using assms(1,3,4) t
    by (auto simp: decode_json decode_text request_success request_http_error)
qed

text \<open>A 200 response with a JSON body, and a 200 response with a plain-text body.\<close>

theorem request_decodes_by_content_type_witness:
  "is_json (mock_json_response 200 (JObj [(''id'', JNum 42)])) \<and>
   fst (request (mock_platform (Settled 120 (Inr (mock_json_response 200 (JObj [(''id'', JNum 42)])))))
          ''/registrations'' no_options []) = Inr (JObj [(''id'', JNum 42)]) \<and>
   \<not> is_json (mock_text_response 200 ''pong'') \<and>
   fst (request (mock_platform (Settled 120 (Inr (mock_text_response 200 ''pong''))))
          ''/ping'' no_options []) = Inr (JStr ''pong'')"
  using
    request_decodes_by_content_type [of
      "mock_platform (Settled 120 (Inr (mock_json_response 200 (JObj [(''id'', JNum 42)]))))"
      "''/registrations''" no_options 120 "mock_json_response 200 (JObj [(''id'', JNum 42)])"
      10000 "[]"]
    request_decodes_by_content_type [of
      "mock_platform (Settled 120 (Inr (mock_text_response 200 ''pong'')))"
      "''/ping''" no_options 120 "mock_text_response 200 ''pong''"
      10000 "[]"]
  by (simp add: mock_platform_def mock_json_response_def mock_text_response_def no_options_def
        is_json_def ok_def)

section \<open>Other failures\<close>

text \<open>
  Claim C7. Let the timer be set to \<open>options.timeout\<close>, or to 10000 ms when that property
  is absent, a delay that \<open>setTimeout\<close> keeps (at most 2147483647). An error that is not
  the abort error passes through \<open>request\<close> unchanged: when \<open>fetch\<close> rejects with it before
  the timer fires (a transport failure), and when a response has arrived and
  \<open>response.json()\<close> or \<open>response.text()\<close>, whichever the content type selects, rejects
  with it before the timer fires. Conversely, a rejection with an \<open>ApiError\<close> is the
  timeout object or carries the status of a response outside the success range: nothing
  else is normalised. On the platform an abort error is raised only when the signal is
  aborted, and the controller's signal is aborted only by the timer.
\<close>

theorem request_passes_other_failures:
  assumes "t = (case timeout options of None \<Rightarrow> 10000 | Some limit \<Rightarrow> limit)"
    and "t \<le> 2147483647"
    and "call = fetch_args P path options"
  shows "(\<forall>ms e. fetch P call = Settled ms (Inl e) \<and> ms \<le> t \<and> err_name e \<noteq> ''AbortError'' \<longrightarrow>
            fst (request P path options log) = Inl (Native e)) \<and>
         (\<forall>ms response ms' e. fetch P call = Settled ms (Inr response) \<and> ms \<le> t \<and>
              is_json response \<and> resp_json response = Settled ms' (Inl e) \<and> ms' \<le> t \<and>
              err_name e \<noteq> ''AbortError'' \<longrightarrow>
            fst (request P path options log) = Inl (Native e)) \<and>
         (\<forall>ms response ms' e. fetch P call = Settled ms (Inr response) \<and> ms \<le> t \<and>
              \<not> is_json response \<and> resp_text response = Settled ms' (Inl e) \<and> ms' \<le> t \<and>
              err_name e \<noteq> ''AbortError'' \<longrightarrow>
            fst (request P path options log) = Inl (Native e)) \<and>
         (\<forall>a. fst (request P path options log) = Inl (Api a) \<longrightarrow>
            a = \<lparr>message = JStr ''Request timeout. Please try again.'',
                 status = None, details = None\<rparr> \<or>
            (\<exists>ms response. fetch P call = Settled ms (Inr response) \<and> ms \<le> t \<and>
                 \<not> ok response \<and> status a = Some (resp_status response)))"
proof (intro conjI allI impI)
  have t: "timer_delay (effective_timeout options) = t"
    using assms(1,2) by (simp add: effective_timeout_def timer_delay_small)
  {
    fix ms e
    assume "fetch P call = Settled ms (Inl e) \<and> ms \<le> t \<and> err_name e \<noteq> ''AbortError''"
    then show "fst (request P path options log) = Inl (Native e)"
      using assms(3) t by (simp add: request_native_error try_block_def)
  next
    fix ms response ms' e
    assume a: "fetch P call = Settled ms (Inr response) \<and> ms \<le> t \<and>
        is_json response \<and> resp_json response = Settled ms' (Inl e) \<and> ms' \<le> t \<and>
        err_name e \<noteq> ''AbortError''"
    then have "decode t response = Inl e" by (simp add: decode_def)
    with a show "fst (request P path options log) = Inl (Native e)"
      using assms(3) t by (simp add: request_native_error try_block_def)
  next
    fix ms response ms' e
    assume a: "fetch P call = Settled ms (Inr response) \<and> ms \<le> t \<and>
        \<not> is_json response \<and> resp_text response = Settled ms' (Inl e) \<and> ms' \<le> t \<and>
        err_name e \<noteq> ''AbortError''"
    then have "decode t response = Inl e" by (simp add: decode_def)
    with a show "fst (request P path options log) = Inl (Native e)"
      using assms(3) t by (simp add: request_native_error try_block_def)
  next
    fix a
    assume "fst (request P path options log) = Inl (Api a)"
    then obtain err where tb: "try_block P t call = Inl err" and c: "catch_block err = Api a"
      using assms(3) t by (auto simp: request_outcome split: sum.splits)
    from catch_block_cases [OF c]
    show "a = \<lparr>message = JStr ''Request timeout. Please try again.'',
               status = None, details = None\<rparr> \<or>
          (\<exists>ms response. fetch P call = Settled ms (Inr response) \<and> ms \<le> t \<and>
               \<not> ok response \<and> status a = Some (resp_status response))"
    proof
      assume "err = Api a"
      with tb have "try_block P t call = Inl (Api a)" by simp
      from try_block_cases [OF this] show ?thesis by auto
    next
      assume "a = \<lparr>message = JStr ''Request timeout. Please try again.'',
                   status = None, details = None\<rparr>"
      then show ?thesis by simp
    qed
  }
qed

text \<open>\<open>fetch\<close> rejects with a \<open>TypeError\<close> after 35 ms; and a 502 response announces JSON
  but \<open>json()\<close> rejects with a \<open>SyntaxError\<close>.\<close>

theorem request_passes_other_failures_witness:
  "fst (request (mock_platform (Settled 35 (Inl (JsError ''TypeError'' ''Failed to fetch''))))
          ''/registrations'' no_options []) =
     Inl (Native (JsError ''TypeError'' ''Failed to fetch'')) \<and>
   fst (request (mock_platform (Settled 120 (Inr mock_broken_response)))
          ''/registrations'' no_options []) =
     Inl (Native (JsError ''SyntaxError'' ''Unexpected end of JSON input''))"
proof -
  have "fst (request (mock_platform (Settled 35 (Inl (JsError ''TypeError'' ''Failed to fetch''))))
          ''/registrations'' no_options []) =
     Inl (Native (JsError ''TypeError'' ''Failed to fetch''))"
    using request_passes_other_failures [of 10000 no_options
        "fetch_args (mock_platform (Settled 35 (Inl (JsError ''TypeError'' ''Failed to fetch''))))
           ''/registrations'' no_options"
        "mock_platform (Settled 35 (Inl (JsError ''TypeError'' ''Failed to fetch'')))"
        "''/registrations''" "[]"]
    by (simp add: mock_platform_def no_options_def)
  moreover have "fst (request (mock_platform (Settled 120 (Inr mock_broken_response)))
          ''/registrations'' no_options []) =
     Inl (Native (JsError ''SyntaxError'' ''Unexpected end of JSON input''))"
    using request_passes_other_failures [of 10000 no_options
        "fetch_args (mock_platform (Settled 120 (Inr mock_broken_response)))
           ''/registrations'' no_options"
        "mock_platform (Settled 120 (Inr mock_broken_response))"
        "''/registrations''" "[]"]
    by (simp add: mock_platform_def no_options_def mock_broken_response_def is_json_def)
  ultimately show ?thesis by simp
qed

section \<open>Request headers\<close>

text \<open>
  Claim C8. The headers sent should be the default \<open>Content-Type: application/json\<close> merged
  with the caller's headers. The merge is an object spread, which copies own enumerable
  properties only: headers given as a plain object are merged (lemma
  \<open>request_merges_record_headers\<close>, and the last conjunct below), but headers given as a
  \<open>Headers\<close> instance, which \<open>RequestInit\<close> equally admits, are lost. With
  \<open>new Headers({Authorization: "Bearer abc"})\<close> the call carries the default header alone.
\<close>

theorem request_drops_Headers_instance:
  "init_headers (last (snd (request P path
      \<lparr>method = m, body = b,
       headers = Some (HInstance [''Authorization'' \<mapsto> ''Bearer abc'']),
       timeout = t\<rparr> log))) =
     [''Content-Type'' \<mapsto> HStr ''application/json''] \<and>
   init_headers (last (snd (request P path
      \<lparr>method = m, body = b,
       headers = Some (HInstance [''Authorization'' \<mapsto> ''Bearer abc'']),
       timeout = t\<rparr> log))) ''Authorization'' = None \<and>
   init_headers (last (snd (request P path
      \<lparr>method = m, body = b,
       headers = Some (HRecord [''Authorization'' \<mapsto> ''Bearer abc'']),
       timeout = t\<rparr> log))) ''Authorization'' = Some (HStr ''Bearer abc'')"
  by (simp add: request_log fetch_args_def request_headers_def)

section \<open>The convenience operations\<close>

lemma spread_None: "spread defaults None = defaults"
  by (simp add: spread_def)

lemma sent_method: "init_method (last (snd (request P path options log))) = method options"
  by (simp add: request_log fetch_args_def)

lemma sent_body: "init_body (last (snd (request P path options log))) = body options"
  by (simp add: request_log fetch_args_def)

lemma spread_method:
  "method (spread defaults options) =
     (case options of
        None \<Rightarrow> method defaults
      | Some opts \<Rightarrow> spread_prop (method defaults) (own_method opts))"
  by (simp add: spread_def split: option.splits)

lemma spread_body:
  "body (spread defaults options) =
     (case options of
        None \<Rightarrow> body defaults
      | Some opts \<Rightarrow> spread_prop (body defaults) (own_body opts))"
  by (simp add: spread_def split: option.splits)

lemma spread_absent:
  "own_method opts = Absent \<Longrightarrow> own_body opts = Absent \<Longrightarrow>
     spread \<lparr>method = m, body = b, headers = None, timeout = None\<rparr> (Some opts) =
       \<lparr>method = m, body = b, headers = read_prop (own_headers opts),
        timeout = read_prop (own_timeout opts)\<rparr>"
  by (cases "own_headers opts"; cases "own_timeout opts") (simp_all add: spread_def)

lemma spread_absent_method:
  "own_method opts = Absent \<Longrightarrow>
     spread \<lparr>method = m, body = None, headers = None, timeout = None\<rparr> (Some opts) =
       \<lparr>method = m, body = read_prop (own_body opts), headers = read_prop (own_headers opts),
        timeout = read_prop (own_timeout opts)\<rparr>"
  by (cases "own_body opts"; cases "own_headers opts"; cases "own_timeout opts")
     (simp_all add: spread_def)

text \<open>
  Claim C9, as amended. Each of \<open>api.get\<close>, \<open>api.post\<close>, \<open>api.put\<close>, \<open>api.patch\<close> and
  \<open>api.delete\<close> delegates to \<open>request\<close> with its own method, and \<open>post\<close>, \<open>put\<close> and
  \<open>patch\<close> with the body \<open>JSON.stringify(body)\<close>, whenever the caller's options have no
  \<open>method\<close> property (and no \<open>body\<close> property) of their own: then the call is \<open>request\<close> on
  what the options read as, with just these properties set. Since \<open>...options\<close> is spread
  last, a \<open>method\<close> or \<open>body\<close> property of the options, whatever its value, replaces the
  fixed one: in every case the method and the body sent are the fixed ones when the
  options lack the property, nothing when they have it with the value \<open>undefined\<close>, and
  their value otherwise.
\<close>

theorem api_wrappers:
  "(own_method opts = Absent \<longrightarrow>
      api_get P path None =
        request P path \<lparr>method = Some ''GET'', body = None, headers = None, timeout = None\<rparr> \<and>
      api_get P path (Some opts) =
        request P path \<lparr>method = Some ''GET'', body = read_prop (own_body opts),
                         headers = read_prop (own_headers opts),
                         timeout = read_prop (own_timeout opts)\<rparr> \<and>
      api_delete P path None =
        request P path \<lparr>method = Some ''DELETE'', body = None, headers = None, timeout = None\<rparr> \<and>
      api_delete P path (Some opts) =
        request P path \<lparr>method = Some ''DELETE'', body = read_prop (own_body opts),
                         headers = read_prop (own_headers opts),
                         timeout = read_prop (own_timeout opts)\<rparr>) \<and>
   (own_method opts = Absent \<and> own_body opts = Absent \<longrightarrow>
      api_post P path data None =
        request P path \<lparr>method = Some ''POST'', body = map_option (stringify P) data,
                         headers = None, timeout = None\<rparr> \<and>
      api_post P path data (Some opts) =
        request P path \<lparr>method = Some ''POST'', body = map_option (stringify P) data,
                         headers = read_prop (own_headers opts),
                         timeout = read_prop (own_timeout opts)\<rparr> \<and>
      api_put P path data None =
        request P path \<lparr>method = Some ''PUT'', body = map_option (stringify P) data,
                         headers = None, timeout = None\<rparr> \<and>
      api_put P path data (Some opts) =
        request P path \<lparr>method = Some ''PUT'', body = map_option (stringify P) data,
                         headers = read_prop (own_headers opts),
                         timeout = read_prop (own_timeout opts)\<rparr> \<and>
      api_patch P path data None =
        request P path \<lparr>method = Some ''PATCH'', body = map_option (stringify P) data,
                         headers = None, timeout = None\<rparr> \<and>
      api_patch P path data (Some opts) =
        request P path \<lparr>method = Some ''PATCH'', body = map_option (stringify P) data,
                         headers = read_prop (own_headers opts),
                         timeout = read_prop (own_timeout opts)\<rparr>) \<and>
   init_method (last (snd (api_get P path options log))) =
     (case options of
        None \<Rightarrow> Some ''GET''
      | Some given \<Rightarrow>
          (case own_method given of
             Absent \<Rightarrow> Some ''GET'' | Undefined \<Rightarrow> None | Value m \<Rightarrow> Some m)) \<and>
   init_method (last (snd (api_delete P path options log))) =
     (case options of
        None \<Rightarrow> Some ''DELETE''
      | Some given \<Rightarrow>
          (case own_method given of
             Absent \<Rightarrow> Some ''DELETE'' | Undefined \<Rightarrow> None | Value m \<Rightarrow> Some m)) \<and>
   init_method (last (snd (api_post P path data options log))) =
     (case options of
        None \<Rightarrow> Some ''POST''
      | Some given \<Rightarrow>
          (case own_method given of
             Absent \<Rightarrow> Some ''POST'' | Undefined \<Rightarrow> None | Value m \<Rightarrow> Some m)) \<and>
   init_method (last (snd (api_put P path data options log))) =
     (case options of
        None \<Rightarrow> Some ''PUT''
      | Some given \<Rightarrow>
          (case own_method given of
             Absent \<Rightarrow> Some ''PUT'' | Undefined \<Rightarrow> None | Value m \<Rightarrow> Some m)) \<and>
   init_method (last (snd (api_patch P path data options log))) =
     (case options of
        None \<Rightarrow> Some ''PATCH''
      | Some given \<Rightarrow>
          (case own_method given of
             Absent \<Rightarrow> Some ''PATCH'' | Undefined \<Rightarrow> None | Value m \<Rightarrow> Some m)) \<and>
   init_body (last (snd (api_post P path data options log))) =
     (case options of
        None \<Rightarrow> map_option (stringify P) data
      | Some given \<Rightarrow>
          (case own_body given of
             Absent \<Rightarrow> map_option (stringify P) data | Undefined \<Rightarrow> None | Value b \<Rightarrow> Some b)) \<and>
   init_body (last (snd (api_put P path data options log))) =
     (case options of
        None \<Rightarrow> map_option (stringify P) data
      | Some given \<Rightarrow>
          (case own_body given of
             Absent \<Rightarrow> map_option (stringify P) data | Undefined \<Rightarrow> None | Value b \<Rightarrow> Some b)) \<and>
   init_body (last (snd (api_patch P path data options log))) =
     (case options of
        None \<Rightarrow> map_option (stringify P) data
      | Some given \<Rightarrow>
          (case own_body given of
             Absent \<Rightarrow> map_option (stringify P) data | Undefined \<Rightarrow> None | Value b \<Rightarrow> Some b))"
proof -
  have A: "own_method opts = Absent \<longrightarrow>
      api_get P path None =
        request P path \<lparr>method = Some ''GET'', body = None, headers = None, timeout = None\<rparr> \<and>
      api_get P path (Some opts) =
        request P path \<lparr>method = Some ''GET'', body = read_prop (own_body opts),
                         headers = read_prop (own_headers opts),
                         timeout = read_prop (own_timeout opts)\<rparr> \<and>
      api_delete P path None =
        request P path \<lparr>method = Some ''DELETE'', body = None, headers = None, timeout = None\<rparr> \<and>
      api_delete P path (Some opts) =
        request P path \<lparr>method = Some ''DELETE'', body = read_prop (own_body opts),
                         headers = read_prop (own_headers opts),
                         timeout = read_prop (own_timeout opts)\<rparr>"
    by (simp add: api_get_def api_delete_def spread_None spread_absent_method)
  have B: "own_method opts = Absent \<and> own_body opts = Absent \<longrightarrow>
      api_post P path data None =
        request P path \<lparr>method = Some ''POST'', body = map_option (stringify P) data,
                         headers = None, timeout = None\<rparr> \<and>
      api_post P path data (Some opts) =
        request P path \<lparr>method = Some ''POST'', body = map_option (stringify P) data,
                         headers = read_prop (own_headers opts),
                         timeout = read_prop (own_timeout opts)\<rparr> \<and>
      api_put P path data None =
        request P path \<lparr>method = Some ''PUT'', body = map_option (stringify P) data,
                         headers = None, timeout = None\<rparr> \<and>
      api_put P path data (Some opts) =
        request P path \<lparr>method = Some ''PUT'', body = map_option (stringify P) data,
                         headers = read_prop (own_headers opts),
                         timeout = read_prop (own_timeout opts)\<rparr> \<and>
      api_patch P path data None =
        request P path \<lparr>method = Some ''PATCH'', body = map_option (stringify P) data,
                         headers = None, timeout = None\<rparr> \<and>
      api_patch P path data (Some opts) =
        request P path \<lparr>method = Some ''PATCH'', body = map_option (stringify P) data,
                         headers = read_prop (own_headers opts),
                         timeout = read_prop (own_timeout opts)\<rparr>"
    by (simp add: api_post_def api_put_def api_patch_def spread_None spread_absent)
  have C: "init_method (last (snd (api_get P path options log))) =
       (case options of
          None \<Rightarrow> Some ''GET''
        | Some given \<Rightarrow>
            (case own_method given of
               Absent \<Rightarrow> Some ''GET'' | Undefined \<Rightarrow> None | Value m \<Rightarrow> Some m))"
    "init_method (last (snd (api_delete P path options log))) =
       (case options of
          None \<Rightarrow> Some ''DELETE''
        | Some given \<Rightarrow>
            (case own_method given of
               Absent \<Rightarrow> Some ''DELETE'' | Undefined \<Rightarrow> None | Value m \<Rightarrow> Some m))"
    "init_method (last (snd (api_post P path data options log))) =
       (case options of
          None \<Rightarrow> Some ''POST''
        | Some given \<Rightarrow>
            (case own_method given of
               Absent \<Rightarrow> Some ''POST'' | Undefined \<Rightarrow> None | Value m \<Rightarrow> Some m))"
    "init_method (last (snd (api_put P path data options log))) =
       (case options of
          None \<Rightarrow> Some ''PUT''
        | Some given \<Rightarrow>
            (case own_method given of
               Absent \<Rightarrow> Some ''PUT'' | Undefined \<Rightarrow> None | Value m \<Rightarrow> Some m))"
    "init_method (last (snd (api_patch P path data options log))) =
       (case options of
          None \<Rightarrow> Some ''PATCH''
        | Some given \<Rightarrow>
            (case own_method given of
               Absent \<Rightarrow> Some ''PATCH'' | Undefined \<Rightarrow> None | Value m \<Rightarrow> Some m))"
    by (simp_all add: api_get_def api_delete_def api_post_def api_put_def api_patch_def
          sent_method spread_method split: option.splits property.splits)
  have D: "init_body (last (snd (api_post P path data options log))) =
       (case options of
          None \<Rightarrow> map_option (stringify P) data
        | Some given \<Rightarrow>
            (case own_body given of
               Absent \<Rightarrow> map_option (stringify P) data | Undefined \<Rightarrow> None | Value b \<Rightarrow> Some b))"
    "init_body (last (snd (api_put P path data options log))) =
       (case options of
          None \<Rightarrow> map_option (stringify P) data
        | Some given \<Rightarrow>
            (case own_body given of
               Absent \<Rightarrow> map_option (stringify P) data | Undefined \<Rightarrow> None | Value b \<Rightarrow> Some b))"
    "init_body (last (snd (api_patch P path data options log))) =
       (case options of
          None \<Rightarrow> map_option (stringify P) data
        | Some given \<Rightarrow>
            (case own_body given of
               Absent \<Rightarrow> map_option (stringify P) data | Undefined \<Rightarrow> None | Value b \<Rightarrow> Some b))"
    by (simp_all add: api_post_def api_put_def api_patch_def sent_body spread_body
          split: option.splits property.splits)
  from A B C D show ?thesis by blast
qed

text \<open>\<open>api.post\<close> and \<open>api.get\<close> with options that only set a timeout; and \<open>api.post\<close>
  with \<open>{method: undefined}\<close>, which sends the serialized body with no method.\<close>

theorem api_wrappers_witness:
  "own_method (timeout_only 3000) = Absent \<and> own_body (timeout_only 3000) = Absent \<and>
   map init_method (snd (api_post (mock_platform Pending) ''/registrations'' (Some JNull)
       (Some (timeout_only 3000)) [])) = [Some ''POST''] \<and>
   map init_body (snd (api_post (mock_platform Pending) ''/registrations'' (Some JNull)
       (Some (timeout_only 3000)) [])) = [Some ''(serialized)''] \<and>
   map init_method (snd (api_get (mock_platform Pending) ''/registrations''
       (Some (timeout_only 3000)) [])) = [Some ''GET''] \<and>
   init_method (last (snd (api_post (mock_platform Pending) ''/registrations'' (Some JNull)
       (Some method_undefined) []))) = None \<and>
   init_body (last (snd (api_post (mock_platform Pending) ''/registrations'' (Some JNull)
       (Some method_undefined) []))) = Some ''(serialized)''"
proof -
  note T = api_wrappers [of "timeout_only 3000" "mock_platform Pending" "''/registrations''"
      "Some JNull" "Some method_undefined" "[]"]
  have m: "own_method (timeout_only 3000) = Absent"
    and b: "own_body (timeout_only 3000) = Absent"
    by (simp_all add: timeout_only_def)
  from T m b have
    "api_post (mock_platform Pending) ''/registrations'' (Some JNull) (Some (timeout_only 3000)) =
       request (mock_platform Pending) ''/registrations''
         \<lparr>method = Some ''POST'',
          body = map_option (stringify (mock_platform Pending)) (Some JNull),
          headers = read_prop (own_headers (timeout_only 3000)),
          timeout = read_prop (own_timeout (timeout_only 3000))\<rparr>"
    "api_get (mock_platform Pending) ''/registrations'' (Some (timeout_only 3000)) =
       request (mock_platform Pending) ''/registrations''
         \<lparr>method = Some ''GET'', body = read_prop (own_body (timeout_only 3000)),
          headers = read_prop (own_headers (timeout_only 3000)),
          timeout = read_prop (own_timeout (timeout_only 3000))\<rparr>"
    by blast+
  then have 1: "map init_method (snd (api_post (mock_platform Pending) ''/registrations''
        (Some JNull) (Some (timeout_only 3000)) [])) = [Some ''POST'']"
    and 2: "map init_body (snd (api_post (mock_platform Pending) ''/registrations''
        (Some JNull) (Some (timeout_only 3000)) [])) = [Some ''(serialized)'']"
    and 3: "map init_method (snd (api_get (mock_platform Pending) ''/registrations''
        (Some (timeout_only 3000)) [])) = [Some ''GET'']"
    by (simp_all add: request_log fetch_args_def mock_platform_def)
  from T have
    4: "init_method (last (snd (api_post (mock_platform Pending) ''/registrations'' (Some JNull)
        (Some method_undefined) []))) = None"
    and 5: "init_body (last (snd (api_post (mock_platform Pending) ''/registrations''
        (Some JNull) (Some method_undefined) []))) = Some ''(serialized)''"
    by (simp_all add: method_undefined_def mock_platform_def)
  from m b 1 2 3 4 5 show ?thesis by simp
qed

text \<open>
  The claim as first stated fixes the method for every options argument;
  \<open>api.get(path, {method: "DELETE"})\<close> issues a DELETE.
\<close>

theorem api_get_method_counterexample:
  "map init_method (snd (api_get (mock_platform Pending) ''/registrations''
       (Some \<lparr>own_method = Value ''DELETE'', own_body = Absent, own_headers = Absent,
              own_timeout = Absent\<rparr>) [])) =
     [Some ''DELETE''] \<and>
   map init_method (snd (api_get (mock_platform Pending) ''/registrations''
       (Some \<lparr>own_method = Value ''DELETE'', own_body = Absent, own_headers = Absent,
              own_timeout = Absent\<rparr>) [])) \<noteq>
     [Some ''GET'']"
  by (simp add: api_get_def request_log fetch_args_def spread_def)

section \<open>The registration service\<close>

lemma createRegistration_request:
  "createRegistration P payload =
     request P ''/registrations''
       \<lparr>method = Some ''POST'', body = Some (stringify P (payload_json payload)),
        headers = None, timeout = None\<rparr>"
  by (simp add: createRegistration_def api_post_def spread_def)

text \<open>
  Claim C1. For every payload, \<open>createRegistration\<close> makes exactly one call of \<open>fetch\<close>: a
  POST to \<open>BASE_URL\<close> followed by \<open>/registrations\<close>, whose body is \<open>JSON.stringify\<close> of the
  payload, with the default header. A second invocation with the same payload makes a
  second, identical call (nothing is cached or deduplicated, nothing is retried). Its
  outcome is that of \<open>request\<close> on the same call, unchanged: it resolves with the decoded
  body of a 2xx response, and it rejects with what the catch block of \<open>request\<close> yields.
\<close>

theorem createRegistration_posts_once:
  fixes P payload
  defines "call \<equiv> \<lparr>url = BASE_URL P @ ''/registrations'',
                    init_method = Some ''POST'',
                    init_body = Some (stringify P (payload_json payload)),
                    init_headers = [''Content-Type'' \<mapsto> HStr ''application/json'']\<rparr>"
  shows "snd (createRegistration P payload log) = log @ [call] \<and>
         snd (createRegistration P payload (snd (createRegistration P payload log))) =
           log @ [call, call] \<and>
         createRegistration P payload log =
           request P ''/registrations''
             \<lparr>method = Some ''POST'', body = Some (stringify P (payload_json payload)),
              headers = None, timeout = None\<rparr> log \<and>
         (\<forall>ms response saved.
            fetch P call = Settled ms (Inr response) \<and> ms \<le> 10000 \<and> ok response \<and>
            decode 10000 response = Inr saved \<longrightarrow>
            fst (createRegistration P payload log) = Inr saved) \<and>
         (\<forall>error. try_block P 10000 call = Inl error \<longrightarrow>
            fst (createRegistration P payload log) = Inl (catch_block error))"
proof -
  let ?opts = "\<lparr>method = Some ''POST'', body = Some (stringify P (payload_json payload)),
                headers = None, timeout = None\<rparr>"
  have args: "fetch_args P ''/registrations'' ?opts = call"
    by (simp add: fetch_args_def request_headers_def call_def)
  have t: "timer_delay (effective_timeout ?opts) = 10000"
    by (simp add: effective_timeout_def timer_delay_def)
  have log1: "\<And>l. snd (createRegistration P payload l) = l @ [call]"
    by (simp add: createRegistration_request request_log args)
  have ok: "\<And>ms response saved.
      fetch P call = Settled ms (Inr response) \<and> ms \<le> 10000 \<and> ok response \<and>
      decode 10000 response = Inr saved \<Longrightarrow>
      fst (createRegistration P payload log) = Inr saved"
    by (simp add: createRegistration_request request_outcome args t try_block_response)
  have rej: "\<And>error. try_block P 10000 call = Inl error \<Longrightarrow>
      fst (createRegistration P payload log) = Inl (catch_block error)"
    by (simp add: createRegistration_request request_outcome args t)
  have log2: "snd (createRegistration P payload (snd (createRegistration P payload log))) =
      log @ [call, call]"
    by (simp add: log1)
  have eq: "createRegistration P payload log = request P ''/registrations'' ?opts log"
    by (simp add: createRegistration_request)
  from log1 [of log] log2 eq ok rej show ?thesis by blast
qed

text \<open>A server that answers 201 with the JSON body \<open>{...payload, id: 42}\<close>.\<close>

theorem createRegistration_posts_once_witness:
  "map url (snd (createRegistration
       (mock_platform (Settled 120 (Inr (mock_json_response 201 (with_id sample_payload 42)))))
       sample_payload [])) = [''http://localhost:8080/api/registrations''] \<and>
   map init_method (snd (createRegistration
       (mock_platform (Settled 120 (Inr (mock_json_response 201 (with_id sample_payload 42)))))
       sample_payload [])) = [Some ''POST''] \<and>
   fst (createRegistration
       (mock_platform (Settled 120 (Inr (mock_json_response 201 (with_id sample_payload 42)))))
       sample_payload []) = Inr (with_id sample_payload 42)"
proof -
  note T = createRegistration_posts_once [of
      "mock_platform (Settled 120 (Inr (mock_json_response 201 (with_id sample_payload 42))))"
      sample_payload "[]"]
  have A: "snd (createRegistration
       (mock_platform (Settled 120 (Inr (mock_json_response 201 (with_id sample_payload 42)))))
       sample_payload []) =
     [\<lparr>url = ''http://localhost:8080/api/registrations'', init_method = Some ''POST'',
       init_body = Some ''(serialized)'',
       init_headers = [''Content-Type'' \<mapsto> HStr ''application/json'']\<rparr>]"
    using T [THEN conjunct1] by (simp add: mock_platform_def)
  have B: "fst (createRegistration
       (mock_platform (Settled 120 (Inr (mock_json_response 201 (with_id sample_payload 42)))))
       sample_payload []) = Inr (with_id sample_payload 42)"
    using T [THEN conjunct2, THEN conjunct2, THEN conjunct2, THEN conjunct1]
    by (simp add: mock_platform_def mock_json_response_def is_json_def ok_def decode_def)
  from A B show ?thesis by simp
qed

section \<open>Facts about \<open>trim\<close>\<close>

lemma last_dropWhile: "dropWhile Q xs \<noteq> [] \<Longrightarrow> last (dropWhile Q xs) = last xs"
  by (metis last_appendR takeWhile_dropWhile_id)

lemma trimmed_trim: "trimmed (trim s)"
proof (cases "trim s = []")
  case True
  then show ?thesis by (simp add: trimmed_def)
next
  case False
  let ?u = "dropWhile is_space s"
  let ?v = "dropWhile is_space (rev ?u)"
  from False have v: "?v \<noteq> []" by (simp add: trim_def)
  have u: "?u \<noteq> []"
  proof
    assume "?u = []"
    then have "?v = []" by (simp only: rev.simps dropWhile.simps)
    with v show False by simp
  qed
  have "last (trim s) = hd ?v" using v by (simp add: trim_def last_rev)
  moreover have "\<not> is_space (hd ?v)" using v by (rule hd_dropWhile)
  ultimately have l: "\<not> is_space (last (trim s))" by simp
  have "hd (trim s) = last ?v" using v by (simp add: trim_def hd_rev)
  also have "\<dots> = last (rev ?u)" using v by (rule last_dropWhile)
  also have "\<dots> = hd ?u" using u by (simp add: last_rev)
  finally have "hd (trim s) = hd ?u" .
  moreover have "\<not> is_space (hd ?u)" using u by (rule hd_dropWhile)
  ultimately have h: "\<not> is_space (hd (trim s))" by simp
  from h l show ?thesis unfolding trimmed_def by blast
qed

lemma trim_only_strips:
  "\<exists>pre post. s = pre @ trim s @ post \<and> list_all is_space pre \<and> list_all is_space post"
proof -
  let ?u = "dropWhile is_space s"
  have 1: "s = takeWhile is_space s @ ?u" by simp
  have "?u = rev (takeWhile is_space (rev ?u) @ dropWhile is_space (rev ?u))"
    by (metis rev_rev_ident takeWhile_dropWhile_id)
  also have "\<dots> = rev (dropWhile is_space (rev ?u)) @ rev (takeWhile is_space (rev ?u))"
    by (rule rev_append)
  finally have 2: "?u = trim s @ rev (takeWhile is_space (rev ?u))"
    unfolding trim_def .
  have a: "list_all is_space (takeWhile is_space s)"
    by (simp add: list_all_iff) (meson set_takeWhileD)
  have b: "list_all is_space (rev (takeWhile is_space (rev ?u)))"
    by (simp add: list_all_iff) (meson set_takeWhileD)
  from 1 2 have "s = takeWhile is_space s @ trim s @ rev (takeWhile is_space (rev ?u))"
    by metis
  with a b show ?thesis by blast
qed

section \<open>Facts about the page\<close>

lemma run_Nil: "run P s [] = s"
  by (simp add: run_def)

lemma run_Cons: "run P s (e # evs) = run P (step P s e) evs"
  by (simp add: run_def)

lemma run_append: "run P s (evs @ evs') = run P (run P s evs) evs'"
  by (simp add: run_def)

lemma rendered_Cons: "rendered (e # evs) = e # Render # rendered evs"
  by (simp add: rendered_def)

text \<open>Every course id the page can hold is one of the catalog, and has no white space
  around it.\<close>

lemma trim_catalog: "v \<in> set (map course_id courses) \<Longrightarrow> trim v = v \<and> trimmed v"
  by (auto simp: courses_def trim_def trimmed_def is_space_def)

lemma course_in_catalog: "i < length courses \<Longrightarrow> course_id (courses ! i) \<in> set (map course_id courses)"
  by simp

lemma session_in_catalog:
  "i < length sessions \<Longrightarrow> session_courseId (sessions ! i) \<in> set (map course_id courses)"
proof -
  have "\<forall>x \<in> set sessions. session_courseId x \<in> set (map course_id courses)"
    by (simp add: sessions_def courses_def)
  moreover assume "i < length sessions"
  ultimately show ?thesis using nth_mem by blast
qed

lemma initial_catalog_ids: "catalog_ids initial"
  by (simp add: catalog_ids_def initial_def courses_def)

lemma set_key_courseId:
  "courseId (set_key key v p) = (if key = KCourseId then v else courseId p)"
  by (cases key) simp_all

lemma step_catalog_ids:
  assumes "catalog_ids s"
  shows "catalog_ids (step P s e)"
proof (cases e)
  case (OpenCourse i)
  with assms course_in_catalog [of i] show ?thesis
    by (simp add: catalog_ids_def openCourseForm_def)
next
  case (OpenSession i)
  with assms session_in_catalog [of i] show ?thesis
    by (simp add: catalog_ids_def openSessionForm_def)
next
  case (Change key v)
  with assms show ?thesis
    by (simp add: catalog_ids_def onChange_def can_enter_def set_key_courseId)
next
  case Close
  with assms show ?thesis by (simp add: catalog_ids_def onClose_def)
next
  case (Submit now)
  with assms show ?thesis by (simp add: catalog_ids_def handleSubmit_def Let_def)
next
  case (Settle i)
  with assms show ?thesis
    by (simp add: catalog_ids_def handleSubmit_settled_def split: sum.splits)
next
  case Render
  with assms show ?thesis by (simp add: catalog_ids_def render_def Let_def)
qed

lemma run_catalog_ids: "catalog_ids s \<Longrightarrow> catalog_ids (run P s evs)"
  by (induction evs arbitrary: s) (simp_all add: run_Nil run_Cons step_catalog_ids)

text \<open>\<open>handleSubmit\<close>: the guard, and what an accepted trigger does.\<close>

lemma handleSubmit_guard: "shown_submitting s \<Longrightarrow> handleSubmit P now s = s"
  by (simp add: handleSubmit_def)

lemma handleSubmit_calls:
  "\<not> shown_submitting s \<Longrightarrow>
     calls (handleSubmit P now s) =
       calls s @ [\<lparr>url = BASE_URL P @ ''/registrations'',
                   init_method = Some ''POST'',
                   init_body =
                     Some (stringify P (payload_json (registrationData now (shown_form s)))),
                   init_headers = [''Content-Type'' \<mapsto> HStr ''application/json'']\<rparr>]"
  by (simp add: handleSubmit_def Let_def createRegistration_request request_log fetch_args_def
        request_headers_def)

lemma handleSubmit_accepted:
  "\<not> shown_submitting s \<Longrightarrow>
     submitting (handleSubmit P now s) \<and>
     length (in_flight (handleSubmit P now s)) = length (in_flight s) + 1 \<and>
     length (calls (handleSubmit P now s)) = length (calls s) + 1 \<and>
     modalOpen (handleSubmit P now s) = modalOpen s \<and>
     form (handleSubmit P now s) = form s \<and>
     shown_open (handleSubmit P now s) = shown_open s \<and>
     shown_submitting (handleSubmit P now s) = shown_submitting s"
  by (simp add: handleSubmit_def Let_def createRegistration_request request_log)

lemma render_keeps:
  "submitting (render s) = submitting s \<and> in_flight (render s) = in_flight s \<and>
   calls (render s) = calls s \<and> modalOpen (render s) = modalOpen s \<and>
   shown_submitting (render s) = submitting s \<and> shown_open (render s) = modalOpen s"
  by (simp add: render_def Let_def)

lemma settled_keeps:
  "in_flight (handleSubmit_settled outcome s) = in_flight s \<and>
   calls (handleSubmit_settled outcome s) = calls s \<and>
   \<not> submitting (handleSubmit_settled outcome s) \<and>
   shown_submitting (handleSubmit_settled outcome s) = shown_submitting s \<and>
   form (handleSubmit_settled outcome s) = form s"
  by (cases outcome) (simp_all add: handleSubmit_settled_def)

text \<open>Once a render has shown \<open>submitting\<close>, submit triggers and renders make no call.\<close>

lemma quiet_while_submitting:
  "shown_submitting s \<Longrightarrow> submitting s \<Longrightarrow> list_all submit_or_render evs \<Longrightarrow>
     calls (run P s evs) = calls s \<and> in_flight (run P s evs) = in_flight s \<and>
     submitting (run P s evs) \<and> shown_submitting (run P s evs)"
proof (induction evs arbitrary: s)
  case Nil
  then show ?case by (simp add: run_Nil)
next
  case (Cons e evs)
  from Cons.prems(3) have rest: "list_all submit_or_render evs" and e: "submit_or_render e"
    by simp_all
  show ?case
  proof (cases e)
    case (Submit now)
    with Cons.prems(1) have "step P s e = s" by (simp add: handleSubmit_guard)
    with Cons.IH [OF Cons.prems(1,2) rest] show ?thesis by (simp add: run_Cons)
  next
    case Render
    have "shown_submitting (render s)" "submitting (render s)"
      using Cons.prems(2) by (simp_all add: render_keeps)
    from Cons.IH [OF this rest] Render show ?thesis by (simp add: run_Cons render_keeps)
  qed (use e in simp_all)
qed

text \<open>When React renders after every event, the handlers stay in step with the state, and
  a call is made only when none is awaited.\<close>

lemma step_render_in_step:
  assumes "in_step s"
  shows "in_step (render (step P s e)) \<and>
         length (calls (render (step P s e))) + (if submitting (render (step P s e)) then 0 else 1) \<le>
           length (calls s) + (if submitting s then 0 else 1) + (if is_settle e then 1 else 0)"
proof (cases e)
  case (OpenCourse i)
  with assms show ?thesis by (simp add: in_step_def render_keeps openCourseForm_def)
next
  case (OpenSession i)
  with assms show ?thesis by (simp add: in_step_def render_keeps openSessionForm_def)
next
  case (Change key v)
  with assms show ?thesis by (simp add: in_step_def render_keeps onChange_def)
next
  case Close
  with assms show ?thesis by (simp add: in_step_def render_keeps onClose_def)
next
  case (Submit now)
  show ?thesis
  proof (cases "shown_open s \<and> \<not> shown_submitting s")
    case True
    with assms have "\<not> submitting s" "in_flight s = []" by (auto simp: in_step_def)
    with True Submit handleSubmit_accepted [of s P now] show ?thesis
      by (simp add: in_step_def render_keeps)
  next
    case False
    then have "step P s e = s" using Submit by (auto simp: handleSubmit_guard)
    with assms Submit show ?thesis by (simp add: in_step_def render_keeps)
  qed
next
  case (Settle i)
  show ?thesis
  proof (cases "i < length (in_flight s)")
    case True
    with assms have sub: "submitting s" and one: "length (in_flight s) = 1"
      by (auto simp: in_step_def split: if_splits)
    with True have "i = 0" by simp
    with True one Settle sub show ?thesis
      by (simp add: in_step_def render_keeps settled_keeps)
  next
    case False
    with assms Settle show ?thesis by (simp add: in_step_def render_keeps)
  qed
next
  case Render
  with assms show ?thesis by (simp add: in_step_def render_keeps)
qed

lemma rendered_run_in_step:
  "in_step s \<Longrightarrow>
     in_step (run P s (rendered evs)) \<and>
     length (calls (run P s (rendered evs))) + (if submitting (run P s (rendered evs)) then 0 else 1) \<le>
       length (calls s) + (if submitting s then 0 else 1) + length (filter is_settle evs)"
proof (induction evs arbitrary: s)
  case Nil
  then show ?case by (simp add: rendered_def run_Nil)
next
  case (Cons e evs)
  from step_render_in_step [OF Cons.prems, of P e]
  have a: "in_step (render (step P s e))"
    and b: "length (calls (render (step P s e))) + (if submitting (render (step P s e)) then 0 else 1) \<le>
           length (calls s) + (if submitting s then 0 else 1) + (if is_settle e then 1 else 0)"
    by simp_all
  from Cons.IH [OF a] b show ?case
    by (simp add: rendered_Cons run_Cons split: if_splits)
qed

section \<open>The registration form\<close>

text \<open>
  Claim C4. For every state the page can reach and every submission the form accepts
  there, the body of the POST is \<open>JSON.stringify\<close> of a payload whose six string fields
  \<open>name\<close>, \<open>email\<close>, \<open>phone\<close>, \<open>education\<close>, \<open>address\<close> and \<open>courseId\<close> are the form's values
  trimmed, so they have no white space at either end, and whose \<open>registrationDate\<close> is the
  ISO string of the current time, \<open>new Date().toISOString()\<close>. The form is the one the
  handler sees, that of the last render. (Line 85 writes \<open>form.courseId\<close> as it is; the
  course id of the form is always one of the catalog, which trimming leaves alone.)
\<close>

theorem handleSubmit_payload:
  assumes "s = run P initial evs"
    and "\<not> shown_submitting s"
  shows "\<exists>payload.
           calls (handleSubmit P now s) =
             calls s @ [\<lparr>url = BASE_URL P @ ''/registrations'',
                         init_method = Some ''POST'',
                         init_body = Some (stringify P (payload_json payload)),
                         init_headers = [''Content-Type'' \<mapsto> HStr ''application/json'']\<rparr>] \<and>
           name payload = trim (name (shown_form s)) \<and> trimmed (name payload) \<and>
           email payload = trim (email (shown_form s)) \<and> trimmed (email payload) \<and>
           phone payload = trim (phone (shown_form s)) \<and> trimmed (phone payload) \<and>
           education payload = trim (education (shown_form s)) \<and> trimmed (education payload) \<and>
           address payload = trim (address (shown_form s)) \<and> trimmed (address payload) \<and>
           courseId payload = trim (courseId (shown_form s)) \<and> trimmed (courseId payload) \<and>
           registrationDate payload = now"
proof -
  have "catalog_ids s"
    using assms(1) initial_catalog_ids by (simp add: run_catalog_ids)
  then have "courseId (shown_form s) \<in> set (map course_id courses)"
    by (simp add: catalog_ids_def)
  then have c: "trim (courseId (shown_form s)) = courseId (shown_form s)"
    and d: "trimmed (courseId (shown_form s))"
    using trim_catalog by blast+
  show ?thesis
  proof (intro exI conjI)
    show "calls (handleSubmit P now s) =
        calls s @ [\<lparr>url = BASE_URL P @ ''/registrations'',
                    init_method = Some ''POST'',
                    init_body =
                      Some (stringify P (payload_json (registrationData now (shown_form s)))),
                    init_headers = [''Content-Type'' \<mapsto> HStr ''application/json'']\<rparr>]"
      using assms(2) by (rule handleSubmit_calls)
  qed (simp_all add: registrationData_def trimmed_trim c d)
qed

text \<open>The state after the sample visit.\<close>

lemma sample_visit_state:
  "shown_form (run (mock_platform Pending) initial sample_visit) =
     \<lparr>name = ''  Asha Patil '', email = ''asha@example.com  '', phone = '' 9876543210'',
      education = ''BCS'', address = ''Pune  '', courseId = ''python''\<rparr> \<and>
   shown_open (run (mock_platform Pending) initial sample_visit) \<and>
   \<not> shown_submitting (run (mock_platform Pending) initial sample_visit) \<and>
   calls (run (mock_platform Pending) initial sample_visit) = []"
  by (simp add: sample_visit_def rendered_def run_def initial_def render_def Let_def
        openSessionForm_def onChange_def can_enter_def sessions_def courses_def)

text \<open>The sample visit, then a submission.\<close>

theorem handleSubmit_payload_witness:
  "\<not> shown_submitting (run (mock_platform Pending) initial sample_visit) \<and>
   (\<exists>payload.
      map init_body (calls (handleSubmit (mock_platform Pending) ''2026-02-01T10:00:00.000Z''
                              (run (mock_platform Pending) initial sample_visit))) =
        [Some (stringify (mock_platform Pending) (payload_json payload))] \<and>
      name payload = ''Asha Patil'' \<and> email payload = ''asha@example.com'' \<and>
      phone payload = ''9876543210'' \<and> education payload = ''BCS'' \<and>
      address payload = ''Pune'' \<and> courseId payload = ''python'' \<and>
      registrationDate payload = ''2026-02-01T10:00:00.000Z'')"
proof -
  let ?s = "run (mock_platform Pending) initial sample_visit"
  have quiet: "\<not> shown_submitting ?s" by (simp add: sample_visit_state)
  from handleSubmit_payload [OF refl quiet, of "''2026-02-01T10:00:00.000Z''"]
  obtain payload where
    c: "calls (handleSubmit (mock_platform Pending) ''2026-02-01T10:00:00.000Z'' ?s) =
          calls ?s @
            [\<lparr>url = BASE_URL (mock_platform Pending) @ ''/registrations'',
              init_method = Some ''POST'',
              init_body = Some (stringify (mock_platform Pending) (payload_json payload)),
              init_headers = [''Content-Type'' \<mapsto> HStr ''application/json'']\<rparr>]"
    and f: "name payload = trim (name (shown_form ?s))"
      "email payload = trim (email (shown_form ?s))"
      "phone payload = trim (phone (shown_form ?s))"
      "education payload = trim (education (shown_form ?s))"
      "address payload = trim (address (shown_form ?s))"
      "courseId payload = trim (courseId (shown_form ?s))"
      "registrationDate payload = ''2026-02-01T10:00:00.000Z''"
    by blast
  from c have "map init_body (calls (handleSubmit (mock_platform Pending)
        ''2026-02-01T10:00:00.000Z'' ?s)) =
      [Some (stringify (mock_platform Pending) (payload_json payload))]"
    by (simp add: sample_visit_state)
  moreover from f have "name payload = ''Asha Patil''" "email payload = ''asha@example.com''"
    "phone payload = ''9876543210''" "education payload = ''BCS''" "address payload = ''Pune''"
    "courseId payload = ''python''"
    by (simp_all add: sample_visit_state trim_def is_space_def)
  ultimately show ?thesis using quiet f(7) by (intro conjI exI [of _ payload]) simp_all
qed

text \<open>
  Claim C5. The form is idle or submitting. A submit trigger whose handler sees
  \<open>submitting\<close> set changes nothing. A trigger whose handler sees it clear is accepted: it
  sets \<open>submitting\<close> and makes one network call, and leaves the modal and the form as they
  are. Provided React renders the new state before the next event reaches a handler, as
  it does for the events of a page, the further triggers are ignored: after a trigger and
  a render, any number of triggers and renders make no further call, and in a run in which
  a render follows every event there is never more than one call pending, and the calls
  made exceed the completions by at most one. When a pending call settles, \<open>submitting\<close>
  is cleared whether the call succeeded or failed, and the form is idle again; the modal
  is closed on success, and on failure it stays as it was, with the entered values intact.
\<close>

theorem form_submission_guard:
  "(shown_submitting s \<longrightarrow> handleSubmit P now s = s) \<and>
   (\<not> shown_submitting s \<longrightarrow>
      submitting (handleSubmit P now s) \<and>
      length (calls (handleSubmit P now s)) = length (calls s) + 1 \<and>
      modalOpen (handleSubmit P now s) = modalOpen s \<and>
      form (handleSubmit P now s) = form s) \<and>
   (shown_open s \<and> \<not> shown_submitting s \<and> list_all submit_or_render evs \<longrightarrow>
      calls (run P s (Submit now # Render # evs)) = calls (handleSubmit P now s) \<and>
      length (calls (run P s (Submit now # Render # evs))) = length (calls s) + 1 \<and>
      submitting (run P s (Submit now # Render # evs))) \<and>
   (in_step s \<longrightarrow>
      in_step (run P s (rendered trail)) \<and>
      length (in_flight (run P s (rendered trail))) \<le> 1 \<and>
      length (calls (run P s (rendered trail))) \<le>
        length (calls s) + length (filter is_settle trail) + 1) \<and>
   \<not> submitting (handleSubmit_settled outcome s) \<and>
   \<not> shown_submitting (render (handleSubmit_settled outcome s)) \<and>
   \<not> modalOpen (handleSubmit_settled (Inr saved) s) \<and>
   modalOpen (handleSubmit_settled (Inl err) s) = modalOpen s \<and>
   form (handleSubmit_settled outcome s) = form s \<and>
   (submitting s \<and> in_flight s = [outcome] \<longrightarrow> idle (step P s (Settle 0)))"
proof (intro conjI impI)
  assume "shown_submitting s"
  then show "handleSubmit P now s = s" by (rule handleSubmit_guard)
next
  assume a: "\<not> shown_submitting s"
  from handleSubmit_accepted [OF a, of P now]
  show "submitting (handleSubmit P now s)"
    and "length (calls (handleSubmit P now s)) = length (calls s) + 1"
    and "modalOpen (handleSubmit P now s) = modalOpen s"
    and "form (handleSubmit P now s) = form s"
    by simp_all
next
  assume a: "shown_open s \<and> \<not> shown_submitting s \<and> list_all submit_or_render evs"
  let ?h = "handleSubmit P now s"
  from a handleSubmit_accepted [of s P now] have sub: "submitting ?h"
    and len: "length (calls ?h) = length (calls s) + 1"
    by simp_all
  have "shown_submitting (render ?h)" "submitting (render ?h)"
    using sub by (simp_all add: render_keeps)
  from quiet_while_submitting [OF this, of evs P] a
  have q: "calls (run P (render ?h) evs) = calls ?h" "submitting (run P (render ?h) evs)"
    by (simp_all add: render_keeps)
  have r: "run P s (Submit now # Render # evs) = run P (render ?h) evs"
    using a by (simp add: run_Cons)
  show "calls (run P s (Submit now # Render # evs)) = calls ?h"
    using q r by simp
  show "length (calls (run P s (Submit now # Render # evs))) = length (calls s) + 1"
    using q r len by simp
  show "submitting (run P s (Submit now # Render # evs))"
    using q r by simp
next
  assume a: "in_step s"
  from rendered_run_in_step [OF a, of P trail]
  have i: "in_step (run P s (rendered trail))"
    and b: "length (calls (run P s (rendered trail))) +
        (if submitting (run P s (rendered trail)) then 0 else 1) \<le>
        length (calls s) + (if submitting s then 0 else 1) + length (filter is_settle trail)"
    by simp_all
  show "in_step (run P s (rendered trail))" by (rule i)
  show "length (in_flight (run P s (rendered trail))) \<le> 1"
    using i by (simp add: in_step_def split: if_splits)
  show "length (calls (run P s (rendered trail))) \<le>
      length (calls s) + length (filter is_settle trail) + 1"
    using b by (simp split: if_splits)
next
  show "\<not> submitting (handleSubmit_settled outcome s)" by (simp add: settled_keeps)
  show "\<not> shown_submitting (render (handleSubmit_settled outcome s))"
    by (simp add: render_keeps settled_keeps)
  show "\<not> modalOpen (handleSubmit_settled (Inr saved) s)"
    by (simp add: handleSubmit_settled_def)
  show "modalOpen (handleSubmit_settled (Inl err) s) = modalOpen s"
    by (simp add: handleSubmit_settled_def)
  show "form (handleSubmit_settled outcome s) = form s" by (simp add: settled_keeps)
next
  assume "submitting s \<and> in_flight s = [outcome]"
  then show "idle (step P s (Settle 0))"
    by (simp add: idle_def settled_keeps)
qed

text \<open>The sample visit, then two submit triggers with a render between them, while the
  call is pending.\<close>

theorem form_submission_guard_witness:
  "shown_open (run (mock_platform Pending) initial sample_visit) \<and>
   length (calls (run (mock_platform Pending) initial
      (sample_visit @
         [Submit ''2026-02-01T10:00:00.000Z'', Render, Submit ''2026-02-01T10:00:00.180Z'']))) = 1 \<and>
   submitting (run (mock_platform Pending) initial
      (sample_visit @
         [Submit ''2026-02-01T10:00:00.000Z'', Render, Submit ''2026-02-01T10:00:00.180Z'']))"
proof -
  let ?s = "run (mock_platform Pending) initial sample_visit"
  note T = form_submission_guard [of ?s "mock_platform Pending" "''2026-02-01T10:00:00.000Z''"
      "[Submit ''2026-02-01T10:00:00.180Z'']"]
  have pre: "shown_open ?s \<and> \<not> shown_submitting ?s \<and>
      list_all submit_or_render [Submit ''2026-02-01T10:00:00.180Z'']"
    by (simp add: sample_visit_state)
  from T pre have
    "length (calls (run (mock_platform Pending) ?s
        (Submit ''2026-02-01T10:00:00.000Z'' # Render # [Submit ''2026-02-01T10:00:00.180Z'']))) =
       length (calls ?s) + 1"
    and "submitting (run (mock_platform Pending) ?s
        (Submit ''2026-02-01T10:00:00.000Z'' # Render # [Submit ''2026-02-01T10:00:00.180Z'']))"
    by blast+
  then show ?thesis using pre by (simp add: run_append sample_visit_state)
qed

end
